theory Spec2Isabelle
  imports Main
begin

section \<open>Go strings and the library functions the bot calls\<close>

text \<open>
  A Go \<^verbatim>\<open>string\<close> is a sequence of bytes: \<^verbatim>\<open>len(s)\<close> counts bytes and
  \<^verbatim>\<open>s[:n]\<close> cuts at a byte offset. The model uses \<^typ>\<open>string\<close>, a list of
  8-bit characters, so \<^term>\<open>length\<close> and \<^term>\<open>take\<close> are the byte operations of
  the source.
\<close>

definition quote :: char where
  "quote = CHR 0x22"

text \<open>
  \<^verbatim>\<open>strings.TrimSpace\<close> removes the leading and trailing runes for which
  \<^verbatim>\<open>unicode.IsSpace\<close> holds. A string starts (ends) with such a rune exactly when
  it starts (ends) with the UTF-8 encoding of one, so the model works on the encodings: the
  six ASCII spaces, U+0085, U+00A0, U+1680, U+2000 to U+200A, U+2028, U+2029, U+202F,
  U+205F and U+3000.
\<close>

definition spaceRunes :: "string list" where
  "spaceRunes =
    [[CHR 0x09], [CHR 0x0A], [CHR 0x0B], [CHR 0x0C], [CHR 0x0D], [CHR 0x20],
     [CHR 0xC2, CHR 0x85], [CHR 0xC2, CHR 0xA0],
     [CHR 0xE1, CHR 0x9A, CHR 0x80],
     [CHR 0xE2, CHR 0x80, CHR 0x80], [CHR 0xE2, CHR 0x80, CHR 0x81],
     [CHR 0xE2, CHR 0x80, CHR 0x82], [CHR 0xE2, CHR 0x80, CHR 0x83],
     [CHR 0xE2, CHR 0x80, CHR 0x84], [CHR 0xE2, CHR 0x80, CHR 0x85],
     [CHR 0xE2, CHR 0x80, CHR 0x86], [CHR 0xE2, CHR 0x80, CHR 0x87],
     [CHR 0xE2, CHR 0x80, CHR 0x88], [CHR 0xE2, CHR 0x80, CHR 0x89],
     [CHR 0xE2, CHR 0x80, CHR 0x8A],
     [CHR 0xE2, CHR 0x80, CHR 0xA8], [CHR 0xE2, CHR 0x80, CHR 0xA9],
     [CHR 0xE2, CHR 0x80, CHR 0xAF],
     [CHR 0xE2, CHR 0x81, CHR 0x9F],
     [CHR 0xE3, CHR 0x80, CHR 0x80]]"

definition HasPrefix :: "string \<Rightarrow> string \<Rightarrow> bool" where
  "HasPrefix s p = (length p \<le> length s \<and> take (length p) s = p)"

definition HasSuffix :: "string \<Rightarrow> string \<Rightarrow> bool" where
  "HasSuffix s p = (length p \<le> length s \<and> drop (length s - length p) s = p)"

text \<open>The width in bytes of the white-space rune a string starts (ends) with, 0 if none.\<close>

definition leadingSpace :: "string \<Rightarrow> nat" where
  "leadingSpace s = (case find (HasPrefix s) spaceRunes of None \<Rightarrow> 0 | Some w \<Rightarrow> length w)"

definition trailingSpace :: "string \<Rightarrow> nat" where
  "trailingSpace s = (case find (HasSuffix s) spaceRunes of None \<Rightarrow> 0 | Some w \<Rightarrow> length w)"

lemma spaceRunes_nonempty: "w \<in> set spaceRunes \<Longrightarrow> w \<noteq> []"
  by (auto simp: spaceRunes_def)

lemma leadingSpace_le: "leadingSpace s \<le> length s"
  by (auto simp: leadingSpace_def HasPrefix_def find_Some_iff split: option.splits)

lemma trailingSpace_le: "trailingSpace s \<le> length s"
  by (auto simp: trailingSpace_def HasSuffix_def find_Some_iff split: option.splits)

lemma leadingSpace_pos: "0 < leadingSpace s \<Longrightarrow> length s - leadingSpace s < length s"
  using leadingSpace_le [of s] by (cases s) auto

lemma trailingSpace_pos: "0 < trailingSpace s \<Longrightarrow> length s - trailingSpace s < length s"
  using trailingSpace_le [of s] by (cases s) auto

function TrimLeftSpace :: "string \<Rightarrow> string" where
  "TrimLeftSpace s =
     (if leadingSpace s = 0 then s else TrimLeftSpace (drop (leadingSpace s) s))"
  by pat_completeness auto
termination
  by (relation "measure length") (auto intro: leadingSpace_pos)

function TrimRightSpace :: "string \<Rightarrow> string" where
  "TrimRightSpace s =
     (if trailingSpace s = 0 then s
      else TrimRightSpace (take (length s - trailingSpace s) s))"
  by pat_completeness auto
termination
  by (relation "measure length") (auto intro: trailingSpace_pos)

declare TrimLeftSpace.simps [simp del]
declare TrimRightSpace.simps [simp del]

definition TrimSpace :: "string \<Rightarrow> string" where
  "TrimSpace s = TrimRightSpace (TrimLeftSpace s)"

text \<open>
  \<^verbatim>\<open>strings.Trim(s, cutset)\<close> with a cutset of one ASCII byte removes every leading and
  every trailing occurrence of that byte (\<^verbatim>\<open>trimLeftByte\<close> after
  \<^verbatim>\<open>trimRightByte\<close>). The bot only calls it with the cutset \<^verbatim>\<open>"\""\<close>.
\<close>

definition trimRightByte :: "string \<Rightarrow> char \<Rightarrow> string" where
  "trimRightByte s c = rev (dropWhile (\<lambda>x. x = c) (rev s))"

definition trimLeftByte :: "string \<Rightarrow> char \<Rightarrow> string" where
  "trimLeftByte s c = dropWhile (\<lambda>x. x = c) s"

definition Trim :: "string \<Rightarrow> char \<Rightarrow> string" where
  "Trim s c = trimLeftByte (trimRightByte s c) c"

text \<open>
  \<^verbatim>\<open>fmt.Sprintf\<close> is modelled by concatenation; \<^verbatim>\<open>%d\<close> prints an integer in
  decimal, with a minus sign when it is negative.
\<close>

definition digitChar :: "nat \<Rightarrow> char" where
  "digitChar d = ''0123456789'' ! d"

function natToDec :: "nat \<Rightarrow> string" where
  "natToDec n =
     (if n < 10 then [digitChar n] else natToDec (n div 10) @ [digitChar (n mod 10)])"
  by pat_completeness auto
termination
  by (relation "measure id") auto

declare natToDec.simps [simp del]

definition itoa :: "int \<Rightarrow> string" where
  "itoa i = (if i < 0 then CHR ''-'' # natToDec (nat (- i)) else natToDec (nat i))"

text \<open>Go's \<^verbatim>\<open>%\<close> on integers truncates towards zero: the sign is the dividend's.\<close>

definition goRem :: "int \<Rightarrow> int \<Rightarrow> int" where
  "goRem a b = sgn a * (\<bar>a\<bar> mod \<bar>b\<bar>)"

section \<open>Data model\<close>

record PremierLeagueMatch =
  HomeTeamName :: string
  AwayTeamName :: string
  UtcDate :: string
  Status :: string
  FullTimeHome :: int
  FullTimeAway :: int

record NewsAPIArticle =
  Title :: string
  Description :: string
  Url :: string
  SourceName :: string

record TweetResponse =
  DataID :: string
  DataText :: string
  Errors :: "(string \<times> string) list"

text \<open>
  An HTTP response as the bot reads it: the status code, the bytes of the body, and the
  error of \<^verbatim>\<open>io.ReadAll\<close> if reading the body failed.
\<close>

record httpResponse =
  StatusCode :: int
  Body :: string
  ReadErr :: "string option"

text \<open>
  The Gemini client's answer: a list of candidates, each with a \<^verbatim>\<open>Content\<close> pointer
  that is nil (\<^term>\<open>None\<close>) or holds the list \<^verbatim>\<open>Parts\<close>; a part is modelled by the
  text \<^verbatim>\<open>%v\<close> prints for it.
\<close>

record Candidate =
  Content :: "string list option"

record GenerateContentResponse =
  Candidates :: "Candidate list"

text \<open>
  A Go call either panics or returns; a returned \<^verbatim>\<open>(string, error)\<close> is
  \<^term>\<open>Inl\<close> of the error's message or \<^term>\<open>Inr\<close> of the text.
\<close>

datatype 'a outcome = Panic | Returned 'a

text \<open>The calls a run makes to the outside, in the order it makes them.\<close>

datatype event =
    FootballDataGet string
  | NewsAPIGet string
  | GeminiGenerate string
  | PerplexityPost string string
  | TwitterPost string

text \<open>
  Everything outside the program: the configuration value the fallback reads, the clock,
  the answers of the five remote services (\<^term>\<open>Inl\<close> is a transport error; the
  Gemini client also gets the number of calls made to it before in the run), and the JSON
  decoders of \<^verbatim>\<open>encoding/json\<close>.
\<close>

record world =
  PerplexityAPIKey :: string
  unixTime :: int
  footballData :: "string \<Rightarrow> string + httpResponse"
  newsAPI :: "string \<Rightarrow> string + httpResponse"
  gemini :: "nat \<Rightarrow> string \<Rightarrow> string + GenerateContentResponse"
  perplexity :: "string \<Rightarrow> string \<Rightarrow> string + httpResponse"
  twitter :: "string \<Rightarrow> string + httpResponse"
  decodeMatches :: "string \<Rightarrow> string + PremierLeagueMatch list"
  decodeArticles :: "string \<Rightarrow> string + NewsAPIArticle list"
  decodeChoices :: "string \<Rightarrow> string + string list"
  decodeTweet :: "string \<Rightarrow> string + TweetResponse"

type_synonym FootballLeague = string

definition PremierLeague :: FootballLeague where "PremierLeague = ''PL''"
definition LaLiga :: FootballLeague where "LaLiga = ''PD''"
definition Bundesliga :: FootballLeague where "Bundesliga = ''BL1''"
definition SerieA :: FootballLeague where "SerieA = ''SA''"
definition Ligue1 :: FootballLeague where "Ligue1 = ''FL1''"
definition IrishPremier :: FootballLeague where "IrishPremier = ''IRL''"

section \<open>Content policy\<close>

text \<open>
  The bot has no validation function: each generation function repeats the same lines
  inline. \<open>truncateContent\<close> is
  \<^verbatim>\<open>if len(content) > 280 { content = content[:277] + "..." }\<close>;
  \<open>geminiContent\<close> is what follows a Gemini answer (\<^verbatim>\<open>strings.TrimSpace\<close>,
  \<^verbatim>\<open>strings.Trim(content, "\"")\<close>, the truncation); \<open>perplexityContent\<close> is what
  follows a Perplexity answer (\<^verbatim>\<open>strings.TrimSpace\<close>, the truncation).
\<close>

definition truncateContent :: "string \<Rightarrow> string" where
  "truncateContent content =
     (if length content > 280 then take 277 content @ ''...'' else content)"

definition geminiContent :: "string \<Rightarrow> string" where
  "geminiContent part = truncateContent (Trim (TrimSpace part) quote)"

definition perplexityContent :: "string \<Rightarrow> string" where
  "perplexityContent choice = truncateContent (TrimSpace choice)"

text \<open>
  The test \<^verbatim>\<open>len(resp.Candidates) == 0 || len(resp.Candidates[0].Content.Parts) == 0\<close>
  and the read of \<^verbatim>\<open>resp.Candidates[0].Content.Parts[0]\<close> after it: no content, a nil
  pointer dereference, or the first part.
\<close>

datatype firstPart = NoContent | NilContent | FirstPart string

definition firstPart :: "GenerateContentResponse \<Rightarrow> firstPart" where
  "firstPart resp =
     (case Candidates resp of
        [] \<Rightarrow> NoContent
      | c # _ \<Rightarrow>
          (case Content c of
             None \<Rightarrow> NilContent
           | Some [] \<Rightarrow> NoContent
           | Some (p # _) \<Rightarrow> FirstPart p))"

section \<open>Fact sources\<close>

text \<open>
  \<^verbatim>\<open>fetchLatestLeagueMatch\<close>, \<^verbatim>\<open>fetchLatestPremierLeagueMatch\<close> and
  \<^verbatim>\<open>fetchLatestCryptoNews\<close>: one GET each. \<^verbatim>\<open>http.NewRequestWithContext\<close>
  cannot fail on the constant method and the URLs built here, so that branch has no
  counterpart. Every function below returns the calls it made together with its result.
\<close>

definition matchesResult :: "world \<Rightarrow> string + httpResponse \<Rightarrow> string + PremierLeagueMatch" where
  "matchesResult w got =
     (case got of
        Inl err \<Rightarrow> Inl err
      | Inr resp \<Rightarrow>
          if StatusCode resp \<noteq> 200 then Inl (''football-data.org API error: '' @ Body resp)
          else (case decodeMatches w (Body resp) of
                  Inl err \<Rightarrow> Inl err
                | Inr matches \<Rightarrow>
                    if length matches = 0 then Inl ''no matches found''
                    else Inr (matches ! (length matches - 1))))"

definition leagueURL :: "FootballLeague \<Rightarrow> string" where
  "leagueURL league =
     ''https://api.football-data.org/v4/competitions/'' @ league
       @ ''/matches?status=FINISHED&limit=5''"

definition fetchLatestLeagueMatch ::
    "world \<Rightarrow> FootballLeague \<Rightarrow> event list \<times> (string + PremierLeagueMatch)" where
  "fetchLatestLeagueMatch w league =
     ([FootballDataGet (leagueURL league)],
      matchesResult w (footballData w (leagueURL league)))"

definition premierLeagueURL :: string where
  "premierLeagueURL =
     ''https://api.football-data.org/v4/competitions/PL/matches?status=FINISHED&limit=1''"

definition fetchLatestPremierLeagueMatch ::
    "world \<Rightarrow> event list \<times> (string + PremierLeagueMatch)" where
  "fetchLatestPremierLeagueMatch w =
     ([FootballDataGet premierLeagueURL], matchesResult w (footballData w premierLeagueURL))"

definition cryptoNewsURL :: string where
  "cryptoNewsURL = ''https://newsapi.org/v2/top-headlines?q=crypto&pageSize=1''"

definition fetchLatestCryptoNews :: "world \<Rightarrow> event list \<times> (string + NewsAPIArticle)" where
  "fetchLatestCryptoNews w =
     ([NewsAPIGet cryptoNewsURL],
      (case newsAPI w cryptoNewsURL of
         Inl err \<Rightarrow> Inl err
       | Inr resp \<Rightarrow>
           if StatusCode resp \<noteq> 200 then Inl (''newsapi.org API error: '' @ Body resp)
           else (case decodeArticles w (Body resp) of
                   Inl err \<Rightarrow> Inl err
                 | Inr articles \<Rightarrow>
                     if length articles = 0 then Inl ''no crypto news found''
                     else Inr (articles ! 0))))"

section \<open>Prompts\<close>

text \<open>
  The Gemini prompts are raw string literals, where \<^verbatim>\<open>\n\<close> is a backslash and an
  \<^verbatim>\<open>n\<close>; the Perplexity prompts are interpreted literals, where it is a line feed.
\<close>

definition bsn :: string where
  "bsn = [CHR 0x5C, CHR ''n'']"

definition lf :: string where
  "lf = [CHR 0x0A]"

definition scoreLine :: "PremierLeagueMatch \<Rightarrow> string" where
  "scoreLine m =
     HomeTeamName m @ '' '' @ itoa (FullTimeHome m) @ '' - '' @ itoa (FullTimeAway m)
       @ '' '' @ AwayTeamName m"

definition leaguePrompt :: "string \<Rightarrow> PremierLeagueMatch \<Rightarrow> string \<Rightarrow> string" where
  "leaguePrompt leagueName m date =
     ''Write a complete, engaging tweet (at least 100 but under 280 characters) about the latest ''
       @ leagueName @ '' football result.'' @ bsn @ bsn @ ''Match: '' @ scoreLine m @ bsn
       @ ''Date: '' @ date @ bsn @ bsn
       @ ''Make the tweet informative and detailed, mentioning key moments or context if possible. Avoid generic statements. Include hashtags like #''
       @ leagueName @ '' #Football. Output only the tweet text.''"

definition leagueRetryPrompt :: "string \<Rightarrow> PremierLeagueMatch \<Rightarrow> string \<Rightarrow> string" where
  "leagueRetryPrompt leagueName m date =
     ''Write a complete, detailed tweet (at least 100 but under 280 characters) about the latest ''
       @ leagueName @ '' football result.'' @ bsn @ bsn @ ''Match: '' @ scoreLine m @ bsn
       @ ''Date: '' @ date @ bsn @ bsn
       @ ''Be detailed and informative. Mention key facts, context, and impact. Avoid generic statements. Include hashtags like #''
       @ leagueName @ '' #Football. Output only the tweet text.''"

definition premierLeaguePrompt :: "PremierLeagueMatch \<Rightarrow> string \<Rightarrow> string" where
  "premierLeaguePrompt m date =
     ''Generate a tweet about the latest Premier League result:'' @ bsn @ ''Date: '' @ date
       @ bsn @ scoreLine m @ bsn
       @ ''Make it concise, engaging, under 280 characters, and include hashtags like #PremierLeague #EPL.''"

definition cryptoPrompt :: "NewsAPIArticle \<Rightarrow> string" where
  "cryptoPrompt a =
     ''Generate a tweet about this crypto news headline and summary.'' @ bsn @ ''Title: ''
       @ Title a @ bsn @ ''Description: '' @ Description a @ bsn @ ''Source: '' @ SourceName a
       @ bsn @ ''Requirements:'' @ bsn @ ''- The tweet must be at least 100 characters long.''
       @ bsn @ ''- Keep it under 280 characters.'' @ bsn
       @ ''- Make it engaging and informative.'' @ bsn
       @ ''- Include hashtags like #Crypto #Blockchain #News.''"

definition footballSystemMessage :: "string \<Rightarrow> string" where
  "footballSystemMessage leagueName =
     ''You are an expert football Twitter writer. Write engaging, informative tweets with emojis where appropriate. Always include relevant hashtags like #''
       @ leagueName @ '' #Football #FootballNews. Keep tweets under 280 characters.''"

definition footballUserMessage :: "string \<Rightarrow> PremierLeagueMatch \<Rightarrow> string \<Rightarrow> string" where
  "footballUserMessage leagueName m date =
     footballSystemMessage leagueName @ '' Generate a tweet about the latest '' @ leagueName
       @ '' football result. The tweet must be at least 100 characters long, under 280 characters, engaging and informative.''
       @ lf @ ''Match: '' @ scoreLine m @ lf @ ''Date: '' @ date"

definition cryptoSystemMessage :: string where
  "cryptoSystemMessage =
     ''You are an expert crypto Twitter writer. Write engaging, informative tweets with emojis where appropriate. Always include relevant hashtags like #Crypto #Blockchain #CryptoNews. Keep tweets under 280 characters.''"

definition cryptoUserMessage :: "NewsAPIArticle \<Rightarrow> string" where
  "cryptoUserMessage a =
     ''Generate a tweet about this crypto news headline and summary.'' @ lf
       @ ''The tweet must be at least 100 characters long, under 280 characters, engaging and informative.''
       @ lf @ ''Include hashtags like #Crypto #Blockchain #CryptoNews.'' @ lf @ lf
       @ ''Title: '' @ Title a @ lf @ ''Description: '' @ Description a @ lf @ ''Source: ''
       @ SourceName a"

section \<open>Fallback provider\<close>

text \<open>
  What \<^verbatim>\<open>fetchPerplexityFootballTweet\<close> and \<^verbatim>\<open>fetchPerplexityCryptoTweet\<close> do with
  the answer of the POST. \<^verbatim>\<open>json.Marshal\<close> of the payload (strings and numbers) and
  \<^verbatim>\<open>http.NewRequestWithContext\<close> on the constant URL cannot fail.
\<close>

definition perplexityResult :: "world \<Rightarrow> string + httpResponse \<Rightarrow> string + string" where
  "perplexityResult w got =
     (case got of
        Inl err \<Rightarrow> Inl (''failed to call Perplexity API: '' @ err)
      | Inr resp \<Rightarrow>
          if StatusCode resp \<noteq> 200 then Inl (''Perplexity API error: '' @ Body resp)
          else (case decodeChoices w (Body resp) of
                  Inl err \<Rightarrow> Inl (''failed to decode Perplexity response: '' @ err)
                | Inr choices \<Rightarrow>
                    (case choices of
                       [] \<Rightarrow> Inl ''no choices returned from Perplexity''
                     | choice # _ \<Rightarrow> Inr (perplexityContent choice))))"

definition fetchPerplexityFootballTweet ::
    "world \<Rightarrow> string \<Rightarrow> PremierLeagueMatch \<Rightarrow> event list \<times> (string + string) outcome" where
  "fetchPerplexityFootballTweet w leagueName m =
     (if PerplexityAPIKey w = [] then ([], Returned (Inl ''Perplexity API key not set''))
      else if length (UtcDate m) < 10 then ([], Panic)
      else
        let system = footballSystemMessage leagueName;
            prompt = footballUserMessage leagueName m (take 10 (UtcDate m))
        in ([PerplexityPost system prompt],
            Returned (perplexityResult w (perplexity w system prompt))))"

definition fetchPerplexityCryptoTweet ::
    "world \<Rightarrow> NewsAPIArticle \<Rightarrow> event list \<times> (string + string) outcome" where
  "fetchPerplexityCryptoTweet w article =
     (if PerplexityAPIKey w = [] then ([], Returned (Inl ''Perplexity API key not set''))
      else ([PerplexityPost cryptoSystemMessage (cryptoUserMessage article)],
            Returned (perplexityResult w
              (perplexity w cryptoSystemMessage (cryptoUserMessage article)))))"

section \<open>Generation\<close>

text \<open>A callee's calls come after the calls already made.\<close>

definition after :: "event list \<Rightarrow> event list \<times> 'a \<Rightarrow> event list \<times> 'a" where
  "after evs r = (evs @ fst r, snd r)"

text \<open>
  \<^verbatim>\<open>generateLeagueNewsFromAPI\<close>. The model settings (name, temperature, output tokens)
  only reach the remote service and are left out.
\<close>

definition generateLeagueNewsFromAPI ::
    "world \<Rightarrow> FootballLeague \<Rightarrow> string \<Rightarrow> event list \<times> (string + string) outcome" where
  "generateLeagueNewsFromAPI w league leagueName =
     (case fetchLatestLeagueMatch w league of
        (ev0, Inl err) \<Rightarrow> (ev0, Returned (Inl (''failed to fetch latest match: '' @ err)))
      | (ev0, Inr m) \<Rightarrow>
          if length (UtcDate m) < 10 then (ev0, Panic)
          else
            let date = take 10 (UtcDate m);
                prompt = leaguePrompt leagueName m date;
                ev1 = ev0 @ [GeminiGenerate prompt]
            in (case gemini w 0 prompt of
                  Inl err \<Rightarrow> after ev1 (fetchPerplexityFootballTweet w leagueName m)
                | Inr resp \<Rightarrow>
                    (case firstPart resp of
                       NoContent \<Rightarrow> after ev1 (fetchPerplexityFootballTweet w leagueName m)
                     | NilContent \<Rightarrow> (ev1, Panic)
                     | FirstPart part \<Rightarrow>
                         let content = geminiContent part in
                         if length content < 100 then
                           let retryPrompt = leagueRetryPrompt leagueName m date;
                               ev2 = ev1 @ [GeminiGenerate retryPrompt]
                           in (case gemini w 1 retryPrompt of
                                 Inl err \<Rightarrow>
                                   after ev2 (fetchPerplexityFootballTweet w leagueName m)
                               | Inr resp2 \<Rightarrow>
                                   (case firstPart resp2 of
                                      NoContent \<Rightarrow>
                                        after ev2 (fetchPerplexityFootballTweet w leagueName m)
                                    | NilContent \<Rightarrow> (ev2, Panic)
                                    | FirstPart part2 \<Rightarrow>
                                        (ev2, Returned (Inr (geminiContent part2)))))
                         else (ev1, Returned (Inr content)))))"

text \<open>\<^verbatim>\<open>generatePremierLeagueNewsFromAPI\<close>: one Gemini call, no retry, no fallback.\<close>

definition generatePremierLeagueNewsFromAPI ::
    "world \<Rightarrow> event list \<times> (string + string) outcome" where
  "generatePremierLeagueNewsFromAPI w =
     (case fetchLatestPremierLeagueMatch w of
        (ev0, Inl err) \<Rightarrow> (ev0, Returned (Inl (''failed to fetch latest match: '' @ err)))
      | (ev0, Inr m) \<Rightarrow>
          if length (UtcDate m) < 10 then (ev0, Panic)
          else
            let date = take 10 (UtcDate m);
                prompt = premierLeaguePrompt m date;
                ev1 = ev0 @ [GeminiGenerate prompt]
            in (case gemini w 0 prompt of
                  Inl err \<Rightarrow> (ev1, Returned (Inl (''failed to generate summary: '' @ err)))
                | Inr resp \<Rightarrow>
                    (case firstPart resp of
                       NoContent \<Rightarrow> (ev1, Returned (Inl ''no content generated''))
                     | NilContent \<Rightarrow> (ev1, Panic)
                     | FirstPart part \<Rightarrow> (ev1, Returned (Inr (geminiContent part))))))"

text \<open>\<^verbatim>\<open>generateCryptoNewsFromAPI\<close>: one Gemini call, then the fallback.\<close>

definition generateCryptoNewsFromAPI ::
    "world \<Rightarrow> event list \<times> (string + string) outcome" where
  "generateCryptoNewsFromAPI w =
     (case fetchLatestCryptoNews w of
        (ev0, Inl err) \<Rightarrow> (ev0, Returned (Inl (''failed to fetch crypto news: '' @ err)))
      | (ev0, Inr article) \<Rightarrow>
          let prompt = cryptoPrompt article;
              ev1 = ev0 @ [GeminiGenerate prompt]
          in (case gemini w 0 prompt of
                Inl err \<Rightarrow> after ev1 (fetchPerplexityCryptoTweet w article)
              | Inr resp \<Rightarrow>
                  (case firstPart resp of
                     NoContent \<Rightarrow> after ev1 (fetchPerplexityCryptoTweet w article)
                   | NilContent \<Rightarrow> (ev1, Panic)
                   | FirstPart part \<Rightarrow> (ev1, Returned (Inr (geminiContent part))))))"

section \<open>Publishing and the run\<close>

text \<open>
  \<^verbatim>\<open>postToTwitter\<close> returns an \<^verbatim>\<open>error\<close>: \<^term>\<open>None\<close> is nil.
  \<^verbatim>\<open>json.Marshal\<close> of a struct with one string field and
  \<^verbatim>\<open>http.NewRequest\<close> on the constant URL cannot fail.
\<close>

definition postToTwitter :: "world \<Rightarrow> string \<Rightarrow> event list \<times> string option" where
  "postToTwitter w content =
     ([TwitterPost content],
      (case twitter w content of
         Inl err \<Rightarrow> Some (''failed to make request: '' @ err)
       | Inr resp \<Rightarrow>
           (case ReadErr resp of
              Some err \<Rightarrow> Some (''failed to read response: '' @ err)
            | None \<Rightarrow>
                (case decodeTweet w (Body resp) of
                   Inl err \<Rightarrow>
                     Some (''failed to parse response: '' @ err @ '', raw response: ''
                             @ Body resp)
                 | Inr tweetResp \<Rightarrow>
                     if StatusCode resp \<noteq> 201 then
                       (if length (Errors tweetResp) > 0 then
                          Some (''X API error (status '' @ itoa (StatusCode resp) @ ''): ''
                                  @ fst (Errors tweetResp ! 0))
                        else
                          Some (''X API error (status '' @ itoa (StatusCode resp) @ ''): ''
                                  @ Body resp))
                     else None))))"

text \<open>
  The switch of \<^verbatim>\<open>Run\<close> on \<^verbatim>\<open>time.Now().Unix() % 7\<close>. When no case matches (a
  clock before 1970 gives a negative remainder) both variables keep their zero values: the
  empty string and a nil error.
\<close>

definition generateContent :: "world \<Rightarrow> event list \<times> (string + string) outcome" where
  "generateContent w =
     (let t = goRem (unixTime w) 7 in
      if t = 0 then generateLeagueNewsFromAPI w PremierLeague ''PremierLeague''
      else if t = 1 then generateLeagueNewsFromAPI w LaLiga ''LaLiga''
      else if t = 2 then generateLeagueNewsFromAPI w Bundesliga ''Bundesliga''
      else if t = 3 then generateLeagueNewsFromAPI w SerieA ''SerieA''
      else if t = 4 then generateLeagueNewsFromAPI w Ligue1 ''Ligue1''
      else if t = 5 then generateLeagueNewsFromAPI w IrishPremier ''IrishPremierDivision''
      else if t = 6 then generateCryptoNewsFromAPI w
      else ([], Returned (Inr [])))"

definition Run :: "world \<Rightarrow> event list \<times> string option outcome" where
  "Run w =
     (case generateContent w of
        (evs, Panic) \<Rightarrow> (evs, Panic)
      | (evs, Returned (Inl err)) \<Rightarrow>
          (evs, Returned (Some (''failed to generate news: '' @ err)))
      | (evs, Returned (Inr content)) \<Rightarrow>
          (case postToTwitter w content of
             (evp, Some err) \<Rightarrow> (evs @ evp, Returned (Some (''failed to post to X: '' @ err)))
           | (evp, None) \<Rightarrow> (evs @ evp, Returned None)))"

section \<open>Notions used to state the properties\<close>

text \<open>A string made of white-space runes only.\<close>

inductive whitespace :: "string \<Rightarrow> bool" where
  empty: "whitespace []"
| rune: "w \<in> set spaceRunes \<Longrightarrow> whitespace ws \<Longrightarrow> whitespace (w @ ws)"

text \<open>
  The three things a Gemini answer can be for the tests that follow the call: a failure
  that sends the run to the fallback (an error, no candidate, a candidate without parts),
  a nil \<^verbatim>\<open>Content\<close>, or the text of the first part.
\<close>

definition primaryFailed :: "string + GenerateContentResponse \<Rightarrow> bool" where
  "primaryFailed r = (case r of Inl err \<Rightarrow> True | Inr resp \<Rightarrow> firstPart resp = NoContent)"

definition primaryText :: "string + GenerateContentResponse \<Rightarrow> string option" where
  "primaryText r =
     (case r of
        Inl err \<Rightarrow> None
      | Inr resp \<Rightarrow> (case firstPart resp of FirstPart part \<Rightarrow> Some part | _ \<Rightarrow> None))"

definition primaryNil :: "string + GenerateContentResponse \<Rightarrow> bool" where
  "primaryNil r = (case r of Inl err \<Rightarrow> False | Inr resp \<Rightarrow> firstPart resp = NilContent)"

text \<open>
  The two prompts of \<^verbatim>\<open>generateLeagueNewsFromAPI\<close> for a fetched match, and the number
  of calls to each provider in a run's list of calls.
\<close>

abbreviation firstPrompt :: "string \<Rightarrow> PremierLeagueMatch \<Rightarrow> string" where
  "firstPrompt leagueName m \<equiv> leaguePrompt leagueName m (take 10 (UtcDate m))"

abbreviation retryPrompt :: "string \<Rightarrow> PremierLeagueMatch \<Rightarrow> string" where
  "retryPrompt leagueName m \<equiv> leagueRetryPrompt leagueName m (take 10 (UtcDate m))"

fun isGeminiCall :: "event \<Rightarrow> bool" where
  "isGeminiCall (GeminiGenerate prompt) = True"
| "isGeminiCall _ = False"

fun isPerplexityCall :: "event \<Rightarrow> bool" where
  "isPerplexityCall (PerplexityPost system prompt) = True"
| "isPerplexityCall _ = False"

definition geminiCalls :: "event list \<Rightarrow> nat" where
  "geminiCalls evs = length (filter isGeminiCall evs)"

definition perplexityCalls :: "event list \<Rightarrow> nat" where
  "perplexityCalls evs = length (filter isPerplexityCall evs)"

text \<open>The calls that fetch a fact, and the runs whose fact fetch returns an error.\<close>

fun isFactFetch :: "event \<Rightarrow> bool" where
  "isFactFetch (FootballDataGet url) = True"
| "isFactFetch (NewsAPIGet url) = True"
| "isFactFetch _ = False"

definition factFetchFails :: "world \<Rightarrow> bool" where
  "factFetchFails w =
     (let t = goRem (unixTime w) 7 in
      if t = 0 then isl (snd (fetchLatestLeagueMatch w PremierLeague))
      else if t = 1 then isl (snd (fetchLatestLeagueMatch w LaLiga))
      else if t = 2 then isl (snd (fetchLatestLeagueMatch w Bundesliga))
      else if t = 3 then isl (snd (fetchLatestLeagueMatch w SerieA))
      else if t = 4 then isl (snd (fetchLatestLeagueMatch w Ligue1))
      else if t = 5 then isl (snd (fetchLatestLeagueMatch w IrishPremier))
      else if t = 6 then isl (snd (fetchLatestCryptoNews w))
      else False)"

text \<open>
  Following the spec's word "characters", for comparison with the byte counts of the code:
  a character is a rune as Go's \<^verbatim>\<open>unicode/utf8\<close> reads the bytes
  (\<^verbatim>\<open>utf8.RuneCountInString\<close>). \<open>runeWidth\<close> is the number of bytes of the rune a string
  starts with: the length of a well-formed UTF-8 encoding, and 1 for a byte that starts
  none. \<open>runeCount\<close> counts the runes and \<open>takeRunes\<close> keeps the first ones.
\<close>

definition byte :: "char \<Rightarrow> nat" where
  "byte c = of_char c"

definition contByte :: "char \<Rightarrow> bool" where
  "contByte c = (0x80 \<le> byte c \<and> byte c \<le> 0xBF)"

definition secondByte :: "nat \<Rightarrow> char \<Rightarrow> bool" where
  "secondByte b c =
     ((if b = 0xE0 then 0xA0 else if b = 0xF0 then 0x90 else 0x80) \<le> byte c
      \<and> byte c \<le> (if b = 0xED then 0x9F else if b = 0xF4 then 0x8F else 0xBF))"

fun runeWidth :: "string \<Rightarrow> nat" where
  "runeWidth [] = 0"
| "runeWidth (c # cs) =
     (if byte c < 0x80 then 1
      else if 0xC2 \<le> byte c \<and> byte c \<le> 0xDF then
        (if 1 \<le> length cs \<and> contByte (cs ! 0) then 2 else 1)
      else if 0xE0 \<le> byte c \<and> byte c \<le> 0xEF then
        (if 2 \<le> length cs \<and> secondByte (byte c) (cs ! 0) \<and> contByte (cs ! 1) then 3 else 1)
      else if 0xF0 \<le> byte c \<and> byte c \<le> 0xF4 then
        (if 3 \<le> length cs \<and> secondByte (byte c) (cs ! 0) \<and> contByte (cs ! 1)
            \<and> contByte (cs ! 2) then 4 else 1)
      else 1)"

lemma runeWidth_pos: "s \<noteq> [] \<Longrightarrow> 0 < runeWidth s"
  by (cases s) auto

function runeCount :: "string \<Rightarrow> nat" where
  "runeCount s = (if s = [] then 0 else 1 + runeCount (drop (runeWidth s) s))"
  by pat_completeness auto
termination
  by (relation "measure length") (auto simp: runeWidth_pos)

declare runeCount.simps [simp del]

primrec takeRunes :: "nat \<Rightarrow> string \<Rightarrow> string" where
  "takeRunes 0 s = []"
| "takeRunes (Suc n) s =
     (if s = [] then [] else take (runeWidth s) s @ takeRunes n (drop (runeWidth s) s))"

text \<open>
  Following the spec's words, for comparison with \<open>Trim\<close>: "a single layer of enclosing
  quote characters" removes one leading and one trailing double quote when the string has
  both, and nothing otherwise.
\<close>

definition stripOneQuoteLayer :: "string \<Rightarrow> string" where
  "stripOneQuoteLayer s =
     (if 2 \<le> length s \<and> hd s = quote \<and> last s = quote then butlast (tl s) else s)"

section \<open>Sample inputs\<close>

text \<open>A raw answer of 300 non-space bytes, and a tweet that needs no trimming.\<close>

definition longRaw :: string where
  "longRaw = replicate 300 (CHR ''a'')"

definition derbyTweet :: string where
  "derbyTweet = ''Liverpool beat Everton 2-1 at Anfield! #LFC''"

text \<open>
  A finished match, and worlds built around it: the clock is the given time, both fact
  sources answer 200, the matches decoded are the given list, no article is found, Gemini
  answers by call number, Perplexity returns the given text as its only choice, and the
  post is accepted.
\<close>

definition sampleMatch :: PremierLeagueMatch where
  "sampleMatch =
     \<lparr>HomeTeamName = ''Liverpool'', AwayTeamName = ''Everton'',
      UtcDate = ''2024-04-24T19:00:00Z'', Status = ''FINISHED'',
      FullTimeHome = 2, FullTimeAway = 1\<rparr>"

definition okResponse :: "int \<Rightarrow> string \<Rightarrow> string + httpResponse" where
  "okResponse code body = Inr \<lparr>StatusCode = code, Body = body, ReadErr = None\<rparr>"

definition textResponse :: "string \<Rightarrow> string + GenerateContentResponse" where
  "textResponse t = Inr \<lparr>Candidates = [\<lparr>Content = Some [t]\<rparr>]\<rparr>"

definition sampleWorld ::
    "int \<Rightarrow> PremierLeagueMatch list \<Rightarrow> (nat \<Rightarrow> string + GenerateContentResponse) \<Rightarrow> string
       \<Rightarrow> world" where
  "sampleWorld t matches g choice =
     \<lparr>PerplexityAPIKey = ''pplx-key'', unixTime = t,
      footballData = (\<lambda>url. okResponse 200 ''{}''),
      newsAPI = (\<lambda>url. okResponse 200 ''{}''),
      gemini = (\<lambda>n prompt. g n),
      perplexity = (\<lambda>system prompt. okResponse 200 choice),
      twitter = (\<lambda>content. okResponse 201 ''{}''),
      decodeMatches = (\<lambda>body. Inr matches),
      decodeArticles = (\<lambda>body. Inr []),
      decodeChoices = (\<lambda>body. Inr [body]),
      decodeTweet = (\<lambda>body. Inr \<lparr>DataID = ''1'', DataText = '''', Errors = []\<rparr>)\<rparr>"

definition longText :: string where
  "longText = ''Liverpool beat Everton 2-1 at Anfield in a fierce Merseyside derby, a late header sealing all three points. #PremierLeague #Football''"

definition goodWorld :: world where
  "goodWorld = sampleWorld 0 [sampleMatch] (\<lambda>n. textResponse longText) longText"

definition shortWorld :: world where
  "shortWorld = sampleWorld 0 [sampleMatch] (\<lambda>n. textResponse ''Goal!'') longText"

definition retryFailingWorld :: world where
  "retryFailingWorld =
     sampleWorld 0 [sampleMatch]
       (\<lambda>n. if n = 0 then textResponse ''Goal!'' else Inl ''quota exceeded'') longText"

definition failingWorld :: world where
  "failingWorld = sampleWorld 0 [sampleMatch] (\<lambda>n. Inl ''quota exceeded'') longText"

definition blankWorld :: world where
  "blankWorld = sampleWorld 0 [sampleMatch] (\<lambda>n. textResponse ''   '') longText"

definition noMatchWorld :: world where
  "noMatchWorld = sampleWorld 0 [] (\<lambda>n. textResponse longText) longText"

definition noNewsWorld :: world where
  "noNewsWorld = sampleWorld 6 [sampleMatch] (\<lambda>n. textResponse longText) longText"

definition shortDateWorld :: world where
  "shortDateWorld =
     sampleWorld 0 [sampleMatch\<lparr>UtcDate := ''2024''\<rparr>] (\<lambda>n. textResponse longText) longText"

text \<open>
  281 times the two bytes of U+00FC, and a text whose quotes enclose white space.
\<close>

definition uUmlaut :: string where
  "uUmlaut = [CHR 0xC3, CHR 0xBC]"

definition umlauts :: string where
  "umlauts = concat (replicate 281 uUmlaut)"

definition spacedQuoted :: string where
  "spacedQuoted = [quote] @ '' a '' @ [quote]"

definition doubleQuoted :: string where
  "doubleQuoted = [quote, quote] @ ''Top of the league'' @ [quote, quote]"

definition quotedTweet :: string where
  "quotedTweet = ''  '' @ [quote] @ derbyTweet @ [quote] @ ''  ''"

section \<open>Lemmas on the string functions\<close>

lemma find_space_Some:
  "find P spaceRunes = Some w \<Longrightarrow> w \<in> set spaceRunes \<and> P w \<and> w \<noteq> []"
proof -
  assume a: "find P spaceRunes = Some w"
  then have "w \<in> set spaceRunes" "P w"
    by (auto simp: find_Some_iff)
  then show ?thesis using spaceRunes_nonempty by blast
qed

lemma leadingSpace_zero_iff:
  "leadingSpace s = 0 \<longleftrightarrow> (\<forall>w \<in> set spaceRunes. \<not> HasPrefix s w)"
proof (cases "find (HasPrefix s) spaceRunes")
  case None
  then have "\<forall>w \<in> set spaceRunes. \<not> HasPrefix s w" by (simp add: find_None_iff)
  with None show ?thesis by (simp add: leadingSpace_def)
next
  case (Some w)
  from find_space_Some [OF this] show ?thesis
    using Some by (auto simp: leadingSpace_def)
qed

lemma trailingSpace_zero_iff:
  "trailingSpace s = 0 \<longleftrightarrow> (\<forall>w \<in> set spaceRunes. \<not> HasSuffix s w)"
proof (cases "find (HasSuffix s) spaceRunes")
  case None
  then have "\<forall>w \<in> set spaceRunes. \<not> HasSuffix s w" by (simp add: find_None_iff)
  with None show ?thesis by (simp add: trailingSpace_def)
next
  case (Some w)
  from find_space_Some [OF this] show ?thesis
    using Some by (auto simp: trailingSpace_def)
qed

lemma leading_rune:
  assumes "0 < leadingSpace s"
  shows "take (leadingSpace s) s \<in> set spaceRunes"
proof (cases "find (HasPrefix s) spaceRunes")
  case None
  then show ?thesis using assms by (simp add: leadingSpace_def)
next
  case (Some w)
  from find_space_Some [OF this] show ?thesis
    using Some by (simp add: leadingSpace_def HasPrefix_def)
qed

lemma trailing_rune:
  assumes "0 < trailingSpace s"
  shows "drop (length s - trailingSpace s) s \<in> set spaceRunes"
proof (cases "find (HasSuffix s) spaceRunes")
  case None
  then show ?thesis using assms by (simp add: trailingSpace_def)
next
  case (Some w)
  from find_space_Some [OF this] show ?thesis
    using Some by (simp add: trailingSpace_def HasSuffix_def)
qed

lemma HasPrefix_take: "HasPrefix (take n s) p \<Longrightarrow> HasPrefix s p"
  by (auto simp: HasPrefix_def min_def split: if_splits)

lemma leadingSpace_take: "leadingSpace s = 0 \<Longrightarrow> leadingSpace (take n s) = 0"
  unfolding leadingSpace_zero_iff using HasPrefix_take by blast

lemma length_truncateContent: "length (truncateContent s) \<le> 280"
  by (simp add: truncateContent_def)

lemma truncateContent_id: "length s \<le> 280 \<Longrightarrow> truncateContent s = s"
  by (simp add: truncateContent_def)

lemma TrimLeftSpace_id: "leadingSpace s = 0 \<Longrightarrow> TrimLeftSpace s = s"
  by (simp add: TrimLeftSpace.simps)

lemma TrimRightSpace_id: "trailingSpace s = 0 \<Longrightarrow> TrimRightSpace s = s"
  by (simp add: TrimRightSpace.simps)

lemma leadingSpace_TrimLeftSpace: "leadingSpace (TrimLeftSpace s) = 0"
  by (induction s rule: TrimLeftSpace.induct) (simp add: TrimLeftSpace.simps)

lemma trailingSpace_TrimRightSpace: "trailingSpace (TrimRightSpace s) = 0"
  by (induction s rule: TrimRightSpace.induct) (simp add: TrimRightSpace.simps)

lemma leadingSpace_TrimRightSpace:
  "leadingSpace s = 0 \<Longrightarrow> leadingSpace (TrimRightSpace s) = 0"
  by (induction s rule: TrimRightSpace.induct)
     (simp add: TrimRightSpace.simps leadingSpace_take)

lemma leadingSpace_TrimSpace: "leadingSpace (TrimSpace s) = 0"
  by (simp add: TrimSpace_def leadingSpace_TrimRightSpace leadingSpace_TrimLeftSpace)

lemma trailingSpace_TrimSpace: "trailingSpace (TrimSpace s) = 0"
  by (simp add: TrimSpace_def trailingSpace_TrimRightSpace)

lemma TrimSpace_id: "leadingSpace s = 0 \<Longrightarrow> trailingSpace s = 0 \<Longrightarrow> TrimSpace s = s"
  by (simp add: TrimSpace_def TrimLeftSpace_id TrimRightSpace_id)

lemma whitespace_snoc:
  "whitespace ws \<Longrightarrow> w \<in> set spaceRunes \<Longrightarrow> whitespace (ws @ w)"
proof (induction ws rule: whitespace.induct)
  case empty
  then show ?case using whitespace.rune [OF _ whitespace.empty, of w] by simp
next
  case (rune v vs)
  then show ?case using whitespace.rune [of v "vs @ w"] by simp
qed

lemma TrimLeftSpace_decomp: "\<exists>ws. whitespace ws \<and> s = ws @ TrimLeftSpace s"
proof (induction s rule: TrimLeftSpace.induct)
  case (1 s)
  show ?case
  proof (cases "leadingSpace s = 0")
    case True
    then have "whitespace [] \<and> s = [] @ TrimLeftSpace s"
      by (simp add: TrimLeftSpace_id whitespace.empty)
    then show ?thesis by blast
  next
    case False
    let ?n = "leadingSpace s"
    from False obtain ws where ws: "whitespace ws"
        "drop ?n s = ws @ TrimLeftSpace (drop ?n s)"
      using "1.IH" by blast
    have eq: "TrimLeftSpace s = TrimLeftSpace (drop ?n s)"
      using False by (subst TrimLeftSpace.simps) simp
    have "take ?n s \<in> set spaceRunes" using False by (simp add: leading_rune)
    then have "whitespace (take ?n s @ ws)" using ws(1) by (rule whitespace.rune)
    moreover have "drop ?n s = ws @ TrimLeftSpace s"
      unfolding eq by (rule ws(2))
    then have "take ?n s @ drop ?n s = take ?n s @ (ws @ TrimLeftSpace s)"
      by (rule arg_cong)
    then have "s = (take ?n s @ ws) @ TrimLeftSpace s"
      by (simp only: append_take_drop_id append_assoc)
    ultimately show ?thesis by blast
  qed
qed

lemma TrimRightSpace_decomp: "\<exists>ws. whitespace ws \<and> s = TrimRightSpace s @ ws"
proof (induction s rule: TrimRightSpace.induct)
  case (1 s)
  show ?case
  proof (cases "trailingSpace s = 0")
    case True
    then have "whitespace [] \<and> s = TrimRightSpace s @ []"
      by (simp add: TrimRightSpace_id whitespace.empty)
    then show ?thesis by blast
  next
    case False
    let ?n = "length s - trailingSpace s"
    from False obtain ws where ws: "whitespace ws"
        "take ?n s = TrimRightSpace (take ?n s) @ ws"
      using "1.IH" by blast
    have eq: "TrimRightSpace s = TrimRightSpace (take ?n s)"
      using False by (subst TrimRightSpace.simps) simp
    have "drop ?n s \<in> set spaceRunes" using False by (simp add: trailing_rune)
    with ws(1) have "whitespace (ws @ drop ?n s)" by (rule whitespace_snoc)
    moreover have "take ?n s = TrimRightSpace s @ ws"
      unfolding eq by (rule ws(2))
    then have "take ?n s @ drop ?n s = (TrimRightSpace s @ ws) @ drop ?n s"
      by (rule arg_cong)
    then have "s = TrimRightSpace s @ (ws @ drop ?n s)"
      by (simp only: append_take_drop_id append_assoc)
    ultimately show ?thesis by blast
  qed
qed

lemma TrimSpace_decomp:
  "\<exists>ws1 ws2. whitespace ws1 \<and> whitespace ws2 \<and> s = ws1 @ TrimSpace s @ ws2"
proof -
  obtain ws1 where a: "whitespace ws1" "s = ws1 @ TrimLeftSpace s"
    using TrimLeftSpace_decomp by blast
  obtain ws2 where b: "whitespace ws2" "TrimLeftSpace s = TrimSpace s @ ws2"
    using TrimRightSpace_decomp [of "TrimLeftSpace s"] unfolding TrimSpace_def by blast
  have "s = ws1 @ TrimSpace s @ ws2"
    using a(2) unfolding b(2) [symmetric] .
  with a(1) b(1) show ?thesis by blast
qed

lemma Trim_decomp:
  "\<exists>q1 q2. set q1 \<subseteq> {c} \<and> set q2 \<subseteq> {c} \<and> s = q1 @ Trim s c @ q2"
proof -
  let ?P = "\<lambda>x. x = c"
  let ?r = "rev (dropWhile ?P (rev s))"
  let ?q2 = "rev (takeWhile ?P (rev s))"
  let ?q1 = "takeWhile ?P ?r"
  have "rev s = takeWhile ?P (rev s) @ dropWhile ?P (rev s)" by simp
  then have "rev (rev s) = rev (takeWhile ?P (rev s) @ dropWhile ?P (rev s))"
    by (rule arg_cong)
  then have s: "s = ?r @ ?q2" by (simp only: rev_rev_ident rev_append)
  have r: "?r = ?q1 @ Trim s c"
    by (simp add: Trim_def trimLeftByte_def trimRightByte_def)
  have "s = (?q1 @ Trim s c) @ ?q2" using s unfolding r [symmetric] .
  then have "s = ?q1 @ Trim s c @ ?q2" by (simp only: append_assoc)
  moreover have "set ?q1 \<subseteq> {c}" by (auto dest: set_takeWhileD)
  moreover have "set ?q2 \<subseteq> {c}" by (auto dest: set_takeWhileD)
  ultimately show ?thesis by blast
qed

lemma Trim_hd: "Trim s c \<noteq> [] \<Longrightarrow> hd (Trim s c) \<noteq> c"
  unfolding Trim_def trimLeftByte_def by (rule hd_dropWhile)

lemma last_dropWhile: "dropWhile P xs \<noteq> [] \<Longrightarrow> last (dropWhile P xs) = last xs"
proof -
  assume "dropWhile P xs \<noteq> []"
  then have "last (takeWhile P xs @ dropWhile P xs) = last (dropWhile P xs)"
    by (rule last_appendR)
  then show ?thesis by simp
qed

lemma Trim_last: 
  assumes ne: "Trim s c \<noteq> []"
  shows "last (Trim s c) \<noteq> c"
proof -
  let ?P = "\<lambda>x. x = c"
  let ?d = "dropWhile ?P (rev s)"
  have d: "?d \<noteq> []"
  proof
    assume e: "?d = []"
    have "Trim s c = dropWhile ?P (rev ?d)"
      unfolding Trim_def trimLeftByte_def trimRightByte_def ..
    also have "\<dots> = []" unfolding e by simp
    finally show False using ne by simp
  qed
  have "last (Trim s c) = last (rev ?d)"
    using ne unfolding Trim_def trimLeftByte_def trimRightByte_def by (rule last_dropWhile)
  also have "\<dots> = hd ?d" using d by (simp add: last_rev)
  finally show ?thesis using hd_dropWhile [OF d] by simp
qed

lemma dropWhile_hd: "xs \<noteq> [] \<Longrightarrow> \<not> P (hd xs) \<Longrightarrow> dropWhile P xs = xs"
  by (cases xs) simp_all

lemma Trim_id:
  assumes "s \<noteq> [] \<longrightarrow> hd s \<noteq> c \<and> last s \<noteq> c"
  shows "Trim s c = s"
proof (cases "s = []")
  case True
  then show ?thesis by (simp add: Trim_def trimLeftByte_def trimRightByte_def)
next
  case False
  then have "rev s \<noteq> []" "hd (rev s) \<noteq> c" using assms by (simp_all add: hd_rev)
  then have "dropWhile (\<lambda>x. x = c) (rev s) = rev s" by (simp add: dropWhile_hd)
  moreover have "dropWhile (\<lambda>x. x = c) s = s" using False assms by (simp add: dropWhile_hd)
  ultimately show ?thesis by (simp add: Trim_def trimLeftByte_def trimRightByte_def)
qed

lemma length_Trim: "length (Trim s c) \<le> length s"
  by (simp add: Trim_def trimLeftByte_def trimRightByte_def)
     (metis length_dropWhile_le length_rev le_trans)

lemma length_geminiContent: "length (geminiContent part) \<le> 280"
  by (simp add: geminiContent_def length_truncateContent)

lemma length_perplexityContent: "length (perplexityContent choice) \<le> 280"
  by (simp add: perplexityContent_def length_truncateContent)

lemma leadingSpace_zero_hd:
  assumes "s \<noteq> []" and "hd s \<notin> set (map hd spaceRunes)"
  shows "leadingSpace s = 0"
  unfolding leadingSpace_zero_iff
proof
  fix w assume w: "w \<in> set spaceRunes"
  show "\<not> HasPrefix s w"
  proof
    assume "HasPrefix s w"
    then have "take (length w) s = w" by (simp add: HasPrefix_def)
    moreover have "w \<noteq> []" using w by (rule spaceRunes_nonempty)
    ultimately have "hd w = hd s" by (metis hd_take length_greater_0_conv)
    with w have "hd s \<in> hd ` set spaceRunes" by (metis imageI)
    with assms(2) show False by simp
  qed
qed

lemma trailingSpace_zero_last:
  assumes "s \<noteq> []" and "last s \<notin> set (map last spaceRunes)"
  shows "trailingSpace s = 0"
  unfolding trailingSpace_zero_iff
proof
  fix w assume w: "w \<in> set spaceRunes"
  show "\<not> HasSuffix s w"
  proof
    assume "HasSuffix s w"
    then have "drop (length s - length w) s = w" by (simp add: HasSuffix_def)
    moreover have "w \<noteq> []" using w by (rule spaceRunes_nonempty)
    ultimately have "last w = last s" by (metis last_drop drop_eq_Nil not_le)
    with w have "last s \<in> last ` set spaceRunes" by (metis imageI)
    with assms(2) show False by simp
  qed
qed

lemma geminiContent_id:
  assumes "leadingSpace s = 0" "trailingSpace s = 0"
    and "s \<noteq> [] \<longrightarrow> hd s \<noteq> quote \<and> last s \<noteq> quote" and "length s \<le> 280"
  shows "geminiContent s = s"
  using assms by (simp add: geminiContent_def TrimSpace_id Trim_id truncateContent_id)

section \<open>The paths through \<^verbatim>\<open>generateLeagueNewsFromAPI\<close>\<close>

lemma primary_cases:
  "primaryFailed r \<or> primaryNil r \<or> (\<exists>part. primaryText r = Some part)"
  by (auto simp: primaryFailed_def primaryNil_def primaryText_def
      split: sum.splits firstPart.splits)

lemma fst_fetchLatestLeagueMatch:
  "fst (fetchLatestLeagueMatch w league) = [FootballDataGet (leagueURL league)]"
  by (simp add: fetchLatestLeagueMatch_def)

lemma gen_fetch_error:
  "fetchLatestLeagueMatch w league = (ev0, Inl err) \<Longrightarrow>
   generateLeagueNewsFromAPI w league leagueName =
     (ev0, Returned (Inl (''failed to fetch latest match: '' @ err)))"
  by (simp add: generateLeagueNewsFromAPI_def)

lemma gen_short_date:
  "fetchLatestLeagueMatch w league = (ev0, Inr m) \<Longrightarrow> length (UtcDate m) < 10 \<Longrightarrow>
   generateLeagueNewsFromAPI w league leagueName = (ev0, Panic)"
  by (simp add: generateLeagueNewsFromAPI_def)

lemma gen_first_failed:
  assumes "fetchLatestLeagueMatch w league = (ev0, Inr m)" "10 \<le> length (UtcDate m)"
    and "primaryFailed (gemini w 0 (leaguePrompt leagueName m (take 10 (UtcDate m))))"
  shows "generateLeagueNewsFromAPI w league leagueName =
     after (ev0 @ [GeminiGenerate (leaguePrompt leagueName m (take 10 (UtcDate m)))])
       (fetchPerplexityFootballTweet w leagueName m)"
  using assms
  by (simp add: generateLeagueNewsFromAPI_def primaryFailed_def Let_def split: sum.splits)

lemma gen_first_nil:
  assumes "fetchLatestLeagueMatch w league = (ev0, Inr m)" "10 \<le> length (UtcDate m)"
    and "primaryNil (gemini w 0 (leaguePrompt leagueName m (take 10 (UtcDate m))))"
  shows "generateLeagueNewsFromAPI w league leagueName =
     (ev0 @ [GeminiGenerate (leaguePrompt leagueName m (take 10 (UtcDate m)))], Panic)"
  using assms
  by (simp add: generateLeagueNewsFromAPI_def primaryNil_def Let_def split: sum.splits)

lemma gen_first_text:
  assumes "fetchLatestLeagueMatch w league = (ev0, Inr m)" "10 \<le> length (UtcDate m)"
    and "primaryText (gemini w 0 (leaguePrompt leagueName m (take 10 (UtcDate m)))) = Some part"
    and "100 \<le> length (geminiContent part)"
  shows "generateLeagueNewsFromAPI w league leagueName =
     (ev0 @ [GeminiGenerate (leaguePrompt leagueName m (take 10 (UtcDate m)))],
      Returned (Inr (geminiContent part)))"
  using assms
  by (auto simp: generateLeagueNewsFromAPI_def primaryText_def Let_def
      split: sum.splits firstPart.splits)

lemma gen_retry_failed:
  assumes "fetchLatestLeagueMatch w league = (ev0, Inr m)" "10 \<le> length (UtcDate m)"
    and "primaryText (gemini w 0 (leaguePrompt leagueName m (take 10 (UtcDate m)))) = Some part"
    and "length (geminiContent part) < 100"
    and "primaryFailed (gemini w 1 (leagueRetryPrompt leagueName m (take 10 (UtcDate m))))"
  shows "generateLeagueNewsFromAPI w league leagueName =
     after (ev0 @ [GeminiGenerate (leaguePrompt leagueName m (take 10 (UtcDate m))),
                   GeminiGenerate (leagueRetryPrompt leagueName m (take 10 (UtcDate m)))])
       (fetchPerplexityFootballTweet w leagueName m)"
  using assms
  by (auto simp: generateLeagueNewsFromAPI_def primaryText_def primaryFailed_def Let_def
      split: sum.splits firstPart.splits)

lemma gen_retry_nil:
  assumes "fetchLatestLeagueMatch w league = (ev0, Inr m)" "10 \<le> length (UtcDate m)"
    and "primaryText (gemini w 0 (leaguePrompt leagueName m (take 10 (UtcDate m)))) = Some part"
    and "length (geminiContent part) < 100"
    and "primaryNil (gemini w 1 (leagueRetryPrompt leagueName m (take 10 (UtcDate m))))"
  shows "generateLeagueNewsFromAPI w league leagueName =
     (ev0 @ [GeminiGenerate (leaguePrompt leagueName m (take 10 (UtcDate m))),
             GeminiGenerate (leagueRetryPrompt leagueName m (take 10 (UtcDate m)))], Panic)"
  using assms
  by (auto simp: generateLeagueNewsFromAPI_def primaryText_def primaryNil_def Let_def
      split: sum.splits firstPart.splits)

lemma gen_retry_text:
  assumes "fetchLatestLeagueMatch w league = (ev0, Inr m)" "10 \<le> length (UtcDate m)"
    and "primaryText (gemini w 0 (leaguePrompt leagueName m (take 10 (UtcDate m)))) = Some part"
    and "length (geminiContent part) < 100"
    and "primaryText (gemini w 1 (leagueRetryPrompt leagueName m (take 10 (UtcDate m))))
           = Some part2"
  shows "generateLeagueNewsFromAPI w league leagueName =
     (ev0 @ [GeminiGenerate (leaguePrompt leagueName m (take 10 (UtcDate m))),
             GeminiGenerate (leagueRetryPrompt leagueName m (take 10 (UtcDate m)))],
      Returned (Inr (geminiContent part2)))"
  using assms
  by (auto simp: generateLeagueNewsFromAPI_def primaryText_def Let_def
      split: sum.splits firstPart.splits)

lemma perplexityResult_length: "perplexityResult w got = Inr text \<Longrightarrow> length text \<le> 280"
  by (auto simp: perplexityResult_def length_perplexityContent
      split: sum.splits if_splits list.splits)

lemma fallback_length:
  "snd (fetchPerplexityFootballTweet w leagueName m) = Returned (Inr text) \<Longrightarrow>
   length text \<le> 280"
  by (auto simp: fetchPerplexityFootballTweet_def Let_def dest: perplexityResult_length
      split: if_splits)

lemma fallback_calls:
  "snd (fetchPerplexityFootballTweet w leagueName m) = Returned (Inr text) \<Longrightarrow>
   perplexityCalls (fst (fetchPerplexityFootballTweet w leagueName m)) = 1"
  by (auto simp: fetchPerplexityFootballTweet_def Let_def perplexityCalls_def
      split: if_splits)

lemma gen_length:
  "snd (generateLeagueNewsFromAPI w league leagueName) = Returned (Inr text) \<Longrightarrow>
   length text \<le> 280"
  by (auto simp: generateLeagueNewsFromAPI_def Let_def after_def length_geminiContent
      dest: fallback_length
      split: prod.splits sum.splits firstPart.splits if_splits)

lemma gen_min:
  "generateLeagueNewsFromAPI w league leagueName = (evs, Returned (Inr text)) \<Longrightarrow>
   geminiCalls evs = 1 \<Longrightarrow> perplexityCalls evs = 0 \<Longrightarrow> 100 \<le> length text"
  by (auto simp: generateLeagueNewsFromAPI_def Let_def after_def fetchLatestLeagueMatch_def
      geminiCalls_def perplexityCalls_def
      dest: fallback_calls
      split: prod.splits sum.splits firstPart.splits if_splits)

section \<open>The other generation paths, the run, and the sample worlds\<close>

lemma crypto_fallback_length:
  "snd (fetchPerplexityCryptoTweet w article) = Returned (Inr text) \<Longrightarrow> length text \<le> 280"
  by (auto simp: fetchPerplexityCryptoTweet_def dest: perplexityResult_length
      split: if_splits)

lemma crypto_length:
  "snd (generateCryptoNewsFromAPI w) = Returned (Inr text) \<Longrightarrow> length text \<le> 280"
  by (auto simp: generateCryptoNewsFromAPI_def Let_def after_def length_geminiContent
      dest: crypto_fallback_length
      split: prod.splits sum.splits firstPart.splits if_splits)

lemma generateContent_length:
  "snd (generateContent w) = Returned (Inr text) \<Longrightarrow> length text \<le> 280"
  by (auto simp: generateContent_def Let_def dest: gen_length crypto_length
      split: if_splits)

lemma fallback_no_post:
  "TwitterPost t \<notin> set (fst (fetchPerplexityFootballTweet w leagueName m))"
  by (simp add: fetchPerplexityFootballTweet_def Let_def)

lemma crypto_fallback_no_post:
  "TwitterPost t \<notin> set (fst (fetchPerplexityCryptoTweet w article))"
  by (simp add: fetchPerplexityCryptoTweet_def)

lemma gen_no_post:
  "TwitterPost t \<notin> set (fst (generateLeagueNewsFromAPI w league leagueName))"
  using fallback_no_post [of t w leagueName]
  by (auto simp: generateLeagueNewsFromAPI_def Let_def after_def fetchLatestLeagueMatch_def
      split: prod.splits sum.splits firstPart.splits if_splits)

lemma crypto_no_post:
  "TwitterPost t \<notin> set (fst (generateCryptoNewsFromAPI w))"
  using crypto_fallback_no_post [of t w]
  by (auto simp: generateCryptoNewsFromAPI_def Let_def after_def fetchLatestCryptoNews_def
      split: prod.splits sum.splits firstPart.splits if_splits)

lemma generateContent_no_post:
  "TwitterPost t \<notin> set (fst (generateContent w))"
  by (simp add: generateContent_def Let_def gen_no_post crypto_no_post)

lemma Run_posted:
  "TwitterPost text \<in> set (fst (Run w)) \<Longrightarrow> snd (generateContent w) = Returned (Inr text)"
  using generateContent_no_post [of "text" w]
  by (auto simp: Run_def postToTwitter_def
      split: prod.splits outcome.splits sum.splits option.splits)

lemma league_fetch_failure_modes:
  assumes "footballData w (leagueURL league) = Inl err
           \<or> (\<exists>resp. footballData w (leagueURL league) = Inr resp
                  \<and> (StatusCode resp \<noteq> 200 \<or> decodeMatches w (Body resp) = Inr []))"
  shows "isl (snd (fetchLatestLeagueMatch w league))"
  using assms by (auto simp: fetchLatestLeagueMatch_def matchesResult_def)

lemma crypto_fetch_failure_modes:
  assumes "newsAPI w cryptoNewsURL = Inl err
           \<or> (\<exists>resp. newsAPI w cryptoNewsURL = Inr resp
                  \<and> (StatusCode resp \<noteq> 200 \<or> decodeArticles w (Body resp) = Inr []))"
  shows "isl (snd (fetchLatestCryptoNews w))"
  using assms by (auto simp: fetchLatestCryptoNews_def)

lemma gen_fetch_fails:
  "isl (snd (fetchLatestLeagueMatch w league)) \<Longrightarrow>
   \<exists>err. generateLeagueNewsFromAPI w league leagueName
           = ([FootballDataGet (leagueURL league)], Returned (Inl err))"
  by (cases "snd (fetchLatestLeagueMatch w league)")
     (auto simp: generateLeagueNewsFromAPI_def fetchLatestLeagueMatch_def)

lemma crypto_fetch_fails:
  "isl (snd (fetchLatestCryptoNews w)) \<Longrightarrow>
   \<exists>err. generateCryptoNewsFromAPI w = ([NewsAPIGet cryptoNewsURL], Returned (Inl err))"
  by (cases "snd (fetchLatestCryptoNews w)")
     (auto simp: generateCryptoNewsFromAPI_def fetchLatestCryptoNews_def)

lemma generateContent_fetch_fails:
  assumes "factFetchFails w"
  shows "\<exists>ev err. isFactFetch ev \<and> generateContent w = ([ev], Returned (Inl err))"
proof -
  have l: "\<And>league leagueName. isl (snd (fetchLatestLeagueMatch w league)) \<Longrightarrow>
      \<exists>ev err. isFactFetch ev
        \<and> generateLeagueNewsFromAPI w league leagueName = ([ev], Returned (Inl err))"
    using gen_fetch_fails isFactFetch.simps(1) by blast
  have c: "isl (snd (fetchLatestCryptoNews w)) \<Longrightarrow>
      \<exists>ev err. isFactFetch ev \<and> generateCryptoNewsFromAPI w = ([ev], Returned (Inl err))"
    using crypto_fetch_fails isFactFetch.simps(2) by blast
  show ?thesis
    using assms l c
    by (simp add: factFetchFails_def generateContent_def Let_def split: if_splits)
qed

lemma sample_fetch:
  "fetchLatestLeagueMatch (sampleWorld t [m] g c) league
     = ([FootballDataGet (leagueURL league)], Inr m)"
  by (simp add: fetchLatestLeagueMatch_def matchesResult_def sampleWorld_def okResponse_def)

lemma sample_gemini: "gemini (sampleWorld t ms g c) n prompt = g n"
  by (simp add: sampleWorld_def)

section \<open>Lemmas on characters and on validating twice\<close>

lemma length_TrimSpace: "length (TrimSpace s) \<le> length s"
proof -
  obtain ws1 ws2 where "s = ws1 @ TrimSpace s @ ws2" using TrimSpace_decomp by blast
  then have "length s = length ws1 + length (TrimSpace s) + length ws2"
    by (metis length_append add.assoc)
  then show ?thesis by simp
qed

lemma runeCount_ascii: "\<forall>c \<in> set s. byte c < 0x80 \<Longrightarrow> runeCount s = length s"
proof (induction s)
  case Nil
  then show ?case by (simp add: runeCount.simps)
next
  case (Cons c cs)
  then have "runeCount (c # cs) = 1 + runeCount cs"
    by (subst runeCount.simps) simp
  then show ?case using Cons by simp
qed

lemma takeRunes_ascii: "\<forall>c \<in> set s. byte c < 0x80 \<Longrightarrow> takeRunes n s = take n s"
proof (induction n arbitrary: s)
  case 0
  then show ?case by simp
next
  case (Suc n)
  then show ?case by (cases s) simp_all
qed

lemma set_TrimSpace: "set (TrimSpace s) \<subseteq> set s"
proof -
  obtain ws1 ws2 where "s = ws1 @ TrimSpace s @ ws2" using TrimSpace_decomp by blast
  then have "set s = set ws1 \<union> set (TrimSpace s) \<union> set ws2"
    by (metis set_append Un_assoc)
  then show ?thesis by blast
qed

lemma set_Trim: "set (Trim s c) \<subseteq> set s"
proof -
  obtain q1 q2 where "s = q1 @ Trim s c @ q2" using Trim_decomp by blast
  then have "set s = set q1 \<union> set (Trim s c) \<union> set q2"
    by (metis set_append Un_assoc)
  then show ?thesis by blast
qed

lemma runeWidth_uUmlaut: "runeWidth (uUmlaut @ xs) = 2"
  by (simp add: uUmlaut_def byte_def contByte_def)

lemma length_umlauts: "length (concat (replicate n uUmlaut)) = 2 * n"
  by (induction n) (simp_all add: uUmlaut_def)

lemma runeCount_umlauts:
  "runeCount (concat (replicate n uUmlaut) @ rest) = n + runeCount rest"
proof (induction n)
  case 0
  then show ?case by simp
next
  case (Suc n)
  have "runeCount (uUmlaut @ concat (replicate n uUmlaut) @ rest)
          = 1 + runeCount (concat (replicate n uUmlaut) @ rest)"
    by (subst runeCount.simps) (simp add: runeWidth_uUmlaut, simp add: uUmlaut_def)
  then show ?case using Suc by simp
qed

lemma takeRunes_umlauts:
  "takeRunes n (concat (replicate (n + m) uUmlaut)) = concat (replicate n uUmlaut)"
proof (induction n)
  case 0
  then show ?case by simp
next
  case (Suc n)
  have ne: "uUmlaut @ concat (replicate (n + m) uUmlaut) \<noteq> []" by (simp add: uUmlaut_def)
  have "takeRunes (Suc n) (uUmlaut @ concat (replicate (n + m) uUmlaut))
          = uUmlaut @ takeRunes n (concat (replicate (n + m) uUmlaut))"
    using ne by (simp add: runeWidth_uUmlaut) (simp add: uUmlaut_def)
  then show ?case using Suc by simp
qed

lemma umlauts_split:
  "umlauts = concat (replicate 138 uUmlaut) @ [CHR 0xC3] @ [CHR 0xBC]
               @ concat (replicate 142 uUmlaut)"
proof -
  have "replicate 281 uUmlaut = replicate 138 uUmlaut @ replicate 1 uUmlaut @ replicate 142 uUmlaut"
    by (simp only: replicate_add [symmetric]) simp
  then show ?thesis by (simp add: umlauts_def uUmlaut_def)
qed

lemma truncate_umlauts:
  "truncateContent umlauts = concat (replicate 138 uUmlaut) @ [CHR 0xC3] @ ''...''"
proof -
  have "length umlauts = 562" by (simp add: umlauts_def length_umlauts)
  moreover have "take 277 umlauts = concat (replicate 138 uUmlaut) @ [CHR 0xC3]"
    by (subst umlauts_split) (simp add: length_umlauts)
  ultimately show ?thesis by (simp add: truncateContent_def)
qed

lemma trimmed_umlauts: "Trim (TrimSpace umlauts) quote = umlauts"
proof -
  have "replicate 281 uUmlaut = replicate 1 uUmlaut @ replicate 280 uUmlaut"
    by (simp only: replicate_add [symmetric]) simp
  then have starts: "umlauts = CHR 0xC3 # CHR 0xBC # concat (replicate 280 uUmlaut)"
    by (simp add: umlauts_def uUmlaut_def)
  have "replicate 281 uUmlaut = replicate 280 uUmlaut @ replicate 1 uUmlaut"
    by (simp only: replicate_add [symmetric]) simp
  then have ends: "umlauts = (concat (replicate 280 uUmlaut) @ [CHR 0xC3]) @ [CHR 0xBC]"
    by (simp add: umlauts_def uUmlaut_def)
  have "umlauts \<noteq> []" "hd umlauts = CHR 0xC3" by (simp_all add: starts)
  moreover have "last umlauts = CHR 0xBC" by (subst ends) (rule last_snoc)
  ultimately have ne: "umlauts \<noteq> []" "hd umlauts = CHR 0xC3" "last umlauts = CHR 0xBC"
    by simp_all
  have "leadingSpace umlauts = 0"
    by (rule leadingSpace_zero_hd) (simp_all add: ne spaceRunes_def)
  moreover have "trailingSpace umlauts = 0"
    by (rule trailingSpace_zero_last) (simp_all add: ne spaceRunes_def)
  ultimately have "TrimSpace umlauts = umlauts" by (rule TrimSpace_id)
  moreover have "Trim umlauts quote = umlauts"
    by (rule Trim_id) (simp add: ne quote_def)
  ultimately show ?thesis by simp
qed

lemma geminiContent_quote_free:
  "geminiContent raw \<noteq> [] \<longrightarrow>
     hd (geminiContent raw) \<noteq> quote \<and> last (geminiContent raw) \<noteq> quote"
proof (cases "length (Trim (TrimSpace raw) quote) \<le> 280")
  case True
  then have "geminiContent raw = Trim (TrimSpace raw) quote"
    by (simp add: geminiContent_def truncateContent_id)
  then show ?thesis using Trim_hd Trim_last by metis
next
  case False
  let ?t = "Trim (TrimSpace raw) quote"
  from False have g: "geminiContent raw = take 277 ?t @ ''...''"
    by (simp add: geminiContent_def truncateContent_def)
  from False have ne: "?t \<noteq> []" by auto
  then have "hd (take 277 ?t @ ''...'') = hd ?t" by (cases ?t) simp_all
  moreover have "hd ?t \<noteq> quote" using ne by (rule Trim_hd)
  moreover have "last (take 277 ?t @ ''...'') \<noteq> quote" by (simp add: quote_def)
  ultimately show ?thesis unfolding g by simp
qed

lemma revalidation:
  assumes "leadingSpace (geminiContent raw) = 0" and "trailingSpace (geminiContent raw) = 0"
  shows "geminiContent (geminiContent raw) = geminiContent raw"
  using assms geminiContent_quote_free [of raw] length_geminiContent [of raw]
  by (intro geminiContent_id) auto

lemma spaceRunes_length: "w \<in> set spaceRunes \<Longrightarrow> length w \<le> 3"
  by (auto simp: spaceRunes_def)

lemma perplexityContent_idem:
  "perplexityContent (perplexityContent raw) = perplexityContent raw"
proof (cases "length (TrimSpace raw) \<le> 280")
  case True
  then have out: "perplexityContent raw = TrimSpace raw"
    by (simp add: perplexityContent_def truncateContent_id)
  have "TrimSpace (TrimSpace raw) = TrimSpace raw"
    by (rule TrimSpace_id) (rule leadingSpace_TrimSpace, rule trailingSpace_TrimSpace)
  then show ?thesis unfolding out using True by (simp add: perplexityContent_def truncateContent_id)
next
  case False
  let ?t = "TrimSpace raw"
  let ?out = "take 277 ?t @ ''...''"
  from False have out: "perplexityContent raw = ?out"
    by (simp add: perplexityContent_def truncateContent_def)
  have lead: "leadingSpace ?out = 0"
    unfolding leadingSpace_zero_iff
  proof
    fix w assume w: "w \<in> set spaceRunes"
    then have l: "length w \<le> 3" by (rule spaceRunes_length)
    show "\<not> HasPrefix ?out w"
    proof
      assume "HasPrefix ?out w"
      then have "take (length w) ?out = w" by (simp add: HasPrefix_def)
      moreover have "take (length w) ?out = take (length w) ?t"
        using l False by (simp add: min_def)
      ultimately have "HasPrefix ?t w" using l False by (simp add: HasPrefix_def)
      moreover have "leadingSpace ?t = 0" by (rule leadingSpace_TrimSpace)
      ultimately show False using w by (simp add: leadingSpace_zero_iff)
    qed
  qed
  have trail: "trailingSpace ?out = 0"
    by (rule trailingSpace_zero_last) (simp_all add: spaceRunes_def)
  have "TrimSpace ?out = ?out" using lead trail by (rule TrimSpace_id)
  moreover have "length ?out \<le> 280" using False by simp
  ultimately show ?thesis
    unfolding out by (simp add: perplexityContent_def truncateContent_id)
qed

lemma revalidation_only_if:
  assumes eq: "geminiContent (geminiContent raw) = geminiContent raw"
  shows "leadingSpace (geminiContent raw) = 0 \<and> trailingSpace (geminiContent raw) = 0"
proof -
  let ?out = "geminiContent raw"
  let ?t = "Trim (TrimSpace ?out) quote"
  have l: "length ?out \<le> 280" by (rule length_geminiContent)
  have "length ?t \<le> length (TrimSpace ?out)" by (rule length_Trim)
  moreover have ts: "length (TrimSpace ?out) \<le> length ?out" by (rule length_TrimSpace)
  ultimately have "length ?t \<le> 280" using l by simp
  then have "geminiContent ?out = ?t" by (simp add: geminiContent_def truncateContent_id)
  with eq have "?t = ?out" by simp
  then have "length ?out \<le> length (TrimSpace ?out)"
    using length_Trim [of "TrimSpace ?out" quote] by simp
  with ts have same: "length (TrimSpace ?out) = length ?out" by simp
  obtain ws1 ws2 where d: "?out = ws1 @ TrimSpace ?out @ ws2"
    using TrimSpace_decomp by blast
  then have "length ?out = length ws1 + length (TrimSpace ?out) + length ws2"
    by (metis length_append add.assoc)
  with same have "ws1 = []" "ws2 = []" by simp_all
  with d have "TrimSpace ?out = ?out" by simp
  then show ?thesis
    using leadingSpace_TrimSpace [of ?out] trailingSpace_TrimSpace [of ?out] by simp
qed

section \<open>Claims C1 and C2: minimum length, retry and fallback\<close>

text \<open>
  C1, as the code has it. A fact-backed generation that returns text after a single Gemini
  call and no Perplexity call returns at least 100 bytes: the 100-byte test guards only the
  first attempt. (The text of the retry and of the fallback is returned without such a
  test, and no error is raised for a short text.)
\<close>

theorem first_attempt_min_length:
  assumes "generateLeagueNewsFromAPI w league leagueName = (evs, Returned (Inr text))"
    and "geminiCalls evs = 1" and "perplexityCalls evs = 0"
  shows "100 \<le> length text"
  using assms
  by (auto simp: generateLeagueNewsFromAPI_def Let_def after_def fetchLatestLeagueMatch_def
      geminiCalls_def perplexityCalls_def
      dest: fallback_calls
      split: prod.splits sum.splits firstPart.splits if_splits)

theorem first_attempt_min_length_witness:
  "geminiCalls (fst (generateLeagueNewsFromAPI goodWorld PremierLeague ''PremierLeague'')) = 1
   \<and> perplexityCalls
        (fst (generateLeagueNewsFromAPI goodWorld PremierLeague ''PremierLeague'')) = 0
   \<and> snd (generateLeagueNewsFromAPI goodWorld PremierLeague ''PremierLeague'')
        = Returned (Inr longText)
   \<and> 100 \<le> length longText"
proof -
  let ?g = "generateLeagueNewsFromAPI goodWorld PremierLeague ''PremierLeague''"
  have a: "snd ?g = Returned (Inr longText)" by code_simp
  have b: "geminiCalls (fst ?g) = 1" by code_simp
  have c: "perplexityCalls (fst ?g) = 0" by code_simp
  have "?g = (fst ?g, Returned (Inr longText))" using a by (simp add: prod_eq_iff)
  from first_attempt_min_length [OF this b c] a b c show ?thesis by simp
qed

text \<open>
  Against C1 as stated: when both Gemini attempts answer \<^verbatim>\<open>Goal!\<close>, the run returns
  these five bytes with a nil error.
\<close>

theorem short_text_returned:
  "snd (generateLeagueNewsFromAPI shortWorld PremierLeague ''PremierLeague'')
     = Returned (Inr ''Goal!'')
   \<and> length ''Goal!'' < (100 :: nat)"
  by code_simp

text \<open>
  C2, as the code has it. After a successful fact fetch, the fallback provider is called
  when the first Gemini attempt returns an error or no content, and when the first attempt
  is shorter than 100 bytes and the retry returns an error or no content. When the retry
  returns text, that text is the result whatever its length, and the fallback is not
  called.
\<close>

theorem fallback_after_primary_failure:
  assumes "fetchLatestLeagueMatch w league = (ev0, Inr m)" and "10 \<le> length (UtcDate m)"
  shows
    "(primaryFailed (gemini w 0 (firstPrompt leagueName m)) \<longrightarrow>
        generateLeagueNewsFromAPI w league leagueName =
          after (ev0 @ [GeminiGenerate (firstPrompt leagueName m)])
            (fetchPerplexityFootballTweet w leagueName m))
     \<and> (\<forall>part. primaryText (gemini w 0 (firstPrompt leagueName m)) = Some part
            \<and> length (geminiContent part) < 100 \<longrightarrow>
          (primaryFailed (gemini w 1 (retryPrompt leagueName m)) \<longrightarrow>
             generateLeagueNewsFromAPI w league leagueName =
               after (ev0 @ [GeminiGenerate (firstPrompt leagueName m),
                             GeminiGenerate (retryPrompt leagueName m)])
                 (fetchPerplexityFootballTweet w leagueName m))
          \<and> (\<forall>part2. primaryText (gemini w 1 (retryPrompt leagueName m)) = Some part2 \<longrightarrow>
                generateLeagueNewsFromAPI w league leagueName =
                  (ev0 @ [GeminiGenerate (firstPrompt leagueName m),
                          GeminiGenerate (retryPrompt leagueName m)],
                   Returned (Inr (geminiContent part2)))))"
  using gen_first_failed [OF assms] gen_retry_failed [OF assms] gen_retry_text [OF assms]
  by blast

theorem fallback_after_primary_failure_witness:
  "fetchLatestLeagueMatch failingWorld PremierLeague
     = ([FootballDataGet (leagueURL PremierLeague)], Inr sampleMatch)
   \<and> 10 \<le> length (UtcDate sampleMatch)
   \<and> primaryFailed (gemini failingWorld 0 (firstPrompt ''PremierLeague'' sampleMatch))
   \<and> generateLeagueNewsFromAPI failingWorld PremierLeague ''PremierLeague'' =
       after ([FootballDataGet (leagueURL PremierLeague)]
                @ [GeminiGenerate (firstPrompt ''PremierLeague'' sampleMatch)])
         (fetchPerplexityFootballTweet failingWorld ''PremierLeague'' sampleMatch)
   \<and> perplexityCalls
        (fst (generateLeagueNewsFromAPI failingWorld PremierLeague ''PremierLeague'')) = 1
   \<and> primaryText (gemini retryFailingWorld 0 (firstPrompt ''PremierLeague'' sampleMatch))
       = Some ''Goal!''
   \<and> length (geminiContent ''Goal!'') < 100
   \<and> primaryFailed (gemini retryFailingWorld 1 (retryPrompt ''PremierLeague'' sampleMatch))
   \<and> generateLeagueNewsFromAPI retryFailingWorld PremierLeague ''PremierLeague'' =
       after ([FootballDataGet (leagueURL PremierLeague)]
                @ [GeminiGenerate (firstPrompt ''PremierLeague'' sampleMatch),
                   GeminiGenerate (retryPrompt ''PremierLeague'' sampleMatch)])
         (fetchPerplexityFootballTweet retryFailingWorld ''PremierLeague'' sampleMatch)
   \<and> primaryText (gemini shortWorld 1 (retryPrompt ''PremierLeague'' sampleMatch))
       = Some ''Goal!''
   \<and> generateLeagueNewsFromAPI shortWorld PremierLeague ''PremierLeague'' =
       ([FootballDataGet (leagueURL PremierLeague)]
          @ [GeminiGenerate (firstPrompt ''PremierLeague'' sampleMatch),
             GeminiGenerate (retryPrompt ''PremierLeague'' sampleMatch)],
        Returned (Inr (geminiContent ''Goal!'')))"
proof -
  have ra: "fetchLatestLeagueMatch retryFailingWorld PremierLeague
             = ([FootballDataGet (leagueURL PremierLeague)], Inr sampleMatch)"
    by (simp add: retryFailingWorld_def sample_fetch)
  have rc: "primaryText (gemini retryFailingWorld 0 (firstPrompt ''PremierLeague'' sampleMatch))
       = Some ''Goal!''"
    by (simp add: retryFailingWorld_def sample_gemini primaryText_def textResponse_def
        firstPart_def)
  have rd: "primaryFailed (gemini retryFailingWorld 1 (retryPrompt ''PremierLeague'' sampleMatch))"
    by (simp add: retryFailingWorld_def sample_gemini primaryFailed_def)
  have sa: "fetchLatestLeagueMatch shortWorld PremierLeague
             = ([FootballDataGet (leagueURL PremierLeague)], Inr sampleMatch)"
    by (simp add: shortWorld_def sample_fetch)
  have sc: "primaryText (gemini shortWorld 0 (firstPrompt ''PremierLeague'' sampleMatch))
       = Some ''Goal!''"
    by (simp add: shortWorld_def sample_gemini primaryText_def textResponse_def firstPart_def)
  have sd: "primaryText (gemini shortWorld 1 (retryPrompt ''PremierLeague'' sampleMatch))
       = Some ''Goal!''"
    by (simp add: shortWorld_def sample_gemini primaryText_def textResponse_def firstPart_def)
  have len: "length (geminiContent ''Goal!'') < 100" by code_simp
  have a: "fetchLatestLeagueMatch failingWorld PremierLeague
             = ([FootballDataGet (leagueURL PremierLeague)], Inr sampleMatch)"
    by (simp add: failingWorld_def sample_fetch)
  have b: "10 \<le> length (UtcDate sampleMatch)" by (simp add: sampleMatch_def)
  have c: "primaryFailed (gemini failingWorld 0 (firstPrompt ''PremierLeague'' sampleMatch))"
    by (simp add: failingWorld_def sample_gemini primaryFailed_def)
  have d: "perplexityCalls
        (fst (generateLeagueNewsFromAPI failingWorld PremierLeague ''PremierLeague'')) = 1"
    by code_simp
  show ?thesis
    using fallback_after_primary_failure [OF a b, of "''PremierLeague''"]
      fallback_after_primary_failure [OF ra b, of "''PremierLeague''"]
      fallback_after_primary_failure [OF sa b, of "''PremierLeague''"]
      a b c d rc rd sc sd len
    by blast
qed

text \<open>
  Against C2 as stated: when both Gemini attempts answer \<^verbatim>\<open>Goal!\<close>, the run makes two
  Gemini calls and no Perplexity call.
\<close>

theorem short_retry_no_fallback:
  "snd (generateLeagueNewsFromAPI shortWorld PremierLeague ''PremierLeague'')
     = Returned (Inr ''Goal!'')
   \<and> geminiCalls (fst (generateLeagueNewsFromAPI shortWorld PremierLeague ''PremierLeague'')) = 2
   \<and> perplexityCalls
        (fst (generateLeagueNewsFromAPI shortWorld PremierLeague ''PremierLeague'')) = 0"
  by code_simp

section \<open>Claims C3 to C6: content policy\<close>

text \<open>
  C3, as the code has it. Truncation law, in bytes: when the trimmed form of a Gemini
  answer (white space trimmed, then quotes) is longer than 280 bytes, the validated content
  is the first 277 bytes of the trimmed form followed by three dots, and its length is
  exactly 280 bytes; the same holds for a Perplexity answer, whose trimmed form is the
  answer with white space trimmed. The cut is at a byte offset and ignores word and
  character boundaries. For an answer of ASCII bytes, where bytes and characters are the
  same, the law holds in characters as well.
\<close>

theorem truncation_law:
  "(280 < length (Trim (TrimSpace raw) quote) \<longrightarrow>
      geminiContent raw = take 277 (Trim (TrimSpace raw) quote) @ ''...''
      \<and> length (geminiContent raw) = 280)
   \<and> (280 < length (TrimSpace raw) \<longrightarrow>
      perplexityContent raw = take 277 (TrimSpace raw) @ ''...''
      \<and> length (perplexityContent raw) = 280)
   \<and> ((\<forall>c \<in> set raw. byte c < 0x80) \<and> 280 < runeCount (Trim (TrimSpace raw) quote) \<longrightarrow>
      geminiContent raw = takeRunes 277 (Trim (TrimSpace raw) quote) @ ''...''
      \<and> runeCount (geminiContent raw) = 280)"
proof (intro conjI impI)
  assume "280 < length (Trim (TrimSpace raw) quote)"
  then show "geminiContent raw = take 277 (Trim (TrimSpace raw) quote) @ ''...''"
    and "length (geminiContent raw) = 280"
    by (simp_all add: geminiContent_def truncateContent_def)
next
  assume "280 < length (TrimSpace raw)"
  then show "perplexityContent raw = take 277 (TrimSpace raw) @ ''...''"
    and "length (perplexityContent raw) = 280"
    by (simp_all add: perplexityContent_def truncateContent_def)
next
  let ?t = "Trim (TrimSpace raw) quote"
  assume a: "(\<forall>c \<in> set raw. byte c < 0x80) \<and> 280 < runeCount ?t"
  have sub: "set ?t \<subseteq> set raw" using set_Trim set_TrimSpace by blast
  then have asc: "\<forall>c \<in> set ?t. byte c < 0x80" using a by blast
  then have len: "280 < length ?t" using a by (simp add: runeCount_ascii)
  then have g: "geminiContent raw = take 277 ?t @ ''...''"
    by (simp add: geminiContent_def truncateContent_def)
  show "geminiContent raw = takeRunes 277 ?t @ ''...''"
    unfolding g using asc by (simp add: takeRunes_ascii)
  have "\<forall>c \<in> set (take 277 ?t @ ''...''). byte c < 0x80"
    using asc by (auto simp: byte_def dest: in_set_takeD)
  then have "runeCount (take 277 ?t @ ''...'') = length (take 277 ?t @ ''...'')"
    by (rule runeCount_ascii)
  then show "runeCount (geminiContent raw) = 280"
    unfolding g using len by simp
qed

theorem truncation_law_witness:
  "280 < length (Trim (TrimSpace longRaw) quote)
   \<and> 280 < length (TrimSpace longRaw)
   \<and> 280 < runeCount (Trim (TrimSpace longRaw) quote)
   \<and> geminiContent longRaw = replicate 277 (CHR ''a'') @ ''...''
   \<and> length (geminiContent longRaw) = 280
   \<and> perplexityContent longRaw = replicate 277 (CHR ''a'') @ ''...''
   \<and> length (perplexityContent longRaw) = 280
   \<and> runeCount (geminiContent longRaw) = 280"
proof -
  have "leadingSpace longRaw = 0"
    by (rule leadingSpace_zero_hd) (simp_all add: longRaw_def spaceRunes_def)
  moreover have "trailingSpace longRaw = 0"
    by (rule trailingSpace_zero_last) (simp_all add: longRaw_def spaceRunes_def)
  ultimately have s: "TrimSpace longRaw = longRaw" by (rule TrimSpace_id)
  have q: "Trim longRaw quote = longRaw"
    by (rule Trim_id) (simp add: longRaw_def quote_def)
  have t: "Trim (TrimSpace longRaw) quote = longRaw" unfolding s by (rule q)
  have asc: "\<forall>c \<in> set longRaw. byte c < 0x80" by (simp add: longRaw_def byte_def)
  have h: "280 < length (Trim (TrimSpace longRaw) quote)" unfolding t by (simp add: longRaw_def)
  have h2: "280 < length (TrimSpace longRaw)" unfolding s by (simp add: longRaw_def)
  have h3: "280 < runeCount (Trim (TrimSpace longRaw) quote)"
    unfolding t using asc by (simp add: runeCount_ascii) (simp add: longRaw_def)
  have tk: "take 277 longRaw = replicate 277 (CHR ''a'')" by (simp add: longRaw_def)
  from truncation_law [of longRaw] h h2 h3 asc
  have r: "geminiContent longRaw = take 277 (Trim (TrimSpace longRaw) quote) @ ''...''"
    "length (geminiContent longRaw) = 280"
    "perplexityContent longRaw = take 277 (TrimSpace longRaw) @ ''...''"
    "length (perplexityContent longRaw) = 280"
    "runeCount (geminiContent longRaw) = 280"
    by blast+
  have g: "geminiContent longRaw = replicate 277 (CHR ''a'') @ ''...''"
    using r(1) unfolding t tk .
  have p: "perplexityContent longRaw = replicate 277 (CHR ''a'') @ ''...''"
    using r(3) unfolding s tk .
  show ?thesis using h h2 h3 g p r(2) r(4) r(5) by blast
qed

text \<open>
  Against C3 as stated: for 281 characters of two bytes each, the validated content is 138
  of them, the first byte of the next one and three dots: 142 characters, not 280, and not
  the first 277 characters followed by three dots.
\<close>

theorem truncation_cuts_a_character:
  "280 < runeCount (Trim (TrimSpace umlauts) quote)
   \<and> geminiContent umlauts = concat (replicate 138 uUmlaut) @ [CHR 0xC3] @ ''...''
   \<and> runeCount (geminiContent umlauts) = 142
   \<and> takeRunes 277 (Trim (TrimSpace umlauts) quote) @ ''...''
        = concat (replicate 277 uUmlaut) @ ''...''
   \<and> geminiContent umlauts \<noteq> takeRunes 277 (Trim (TrimSpace umlauts) quote) @ ''...''"
proof -
  have a: "runeCount umlauts = 281"
    using runeCount_umlauts [of 281 "[]"] by (simp add: umlauts_def runeCount.simps)
  have b: "geminiContent umlauts = concat (replicate 138 uUmlaut) @ [CHR 0xC3] @ ''...''"
    by (simp add: geminiContent_def trimmed_umlauts truncate_umlauts)
  have "runeCount ([CHR 0xC3] @ ''...'') = 4" by code_simp
  then have c: "runeCount (geminiContent umlauts) = 142"
    unfolding b using runeCount_umlauts [of 138 "[CHR 0xC3] @ ''...''"] by simp
  have d: "takeRunes 277 umlauts = concat (replicate 277 uUmlaut)"
    using takeRunes_umlauts [of 277 4] by (simp add: umlauts_def)
  have l1: "length (geminiContent umlauts) = 280" unfolding b by (simp add: length_umlauts)
  have l2: "length (takeRunes 277 umlauts @ ''...'') = 557"
    unfolding d by (simp add: length_umlauts)
  have e: "geminiContent umlauts \<noteq> takeRunes 277 umlauts @ ''...''"
  proof
    assume "geminiContent umlauts = takeRunes 277 umlauts @ ''...''"
    then have "length (geminiContent umlauts) = length (takeRunes 277 umlauts @ ''...'')"
      by (rule arg_cong)
    then show False unfolding l1 l2 by simp
  qed
  show ?thesis using a b c d e by (simp add: trimmed_umlauts)
qed

text \<open>
  C4. Every text that \<^verbatim>\<open>generateLeagueNewsFromAPI\<close> returns, on the first attempt, the
  retry or the fallback, has at most 280 bytes, and so has every text a run posts,
  whichever topic the run selects.
\<close>

theorem returned_text_at_most_280:
  "(snd (generateLeagueNewsFromAPI w league leagueName) = Returned (Inr text)
      \<longrightarrow> length text \<le> 280)
   \<and> (TwitterPost text \<in> set (fst (Run w)) \<longrightarrow> length text \<le> 280)"
  using gen_length [of w league leagueName "text"] Run_posted [of "text" w]
    generateContent_length [of w "text"]
  by blast

theorem returned_text_at_most_280_witness:
  "snd (generateLeagueNewsFromAPI goodWorld PremierLeague ''PremierLeague'')
     = Returned (Inr longText)
   \<and> TwitterPost longText \<in> set (fst (Run goodWorld))
   \<and> length longText \<le> 280"
proof -
  have a: "snd (generateLeagueNewsFromAPI goodWorld PremierLeague ''PremierLeague'')
             = Returned (Inr longText)" by code_simp
  have b: "TwitterPost longText \<in> set (fst (Run goodWorld))" by code_simp
  show ?thesis
    using returned_text_at_most_280 [of goodWorld PremierLeague "''PremierLeague''" longText]
      a b by simp
qed

text \<open>
  C5, as the code has it. When the trimmed form is within the limit, the raw answer is the
  validated content enclosed in runs of double quotes (of any length, on either side,
  paired or not) enclosed in runs of white space; what is left after the white space does
  not start or end with white space, the content does not start or end with a quote, and
  an answer with no surrounding white space or quote is returned unchanged.
\<close>

theorem trimming_strips_every_quote:
  assumes "length (Trim (TrimSpace raw) quote) \<le> 280"
  shows "\<exists>ws1 q1 q2 ws2.
           whitespace ws1 \<and> whitespace ws2 \<and> set q1 \<subseteq> {quote} \<and> set q2 \<subseteq> {quote}
           \<and> raw = ws1 @ q1 @ geminiContent raw @ q2 @ ws2
           \<and> leadingSpace (q1 @ geminiContent raw @ q2) = 0
           \<and> trailingSpace (q1 @ geminiContent raw @ q2) = 0
           \<and> (geminiContent raw \<noteq> [] \<longrightarrow>
                 hd (geminiContent raw) \<noteq> quote \<and> last (geminiContent raw) \<noteq> quote)
           \<and> (leadingSpace raw = 0 \<and> trailingSpace raw = 0
                 \<and> (raw \<noteq> [] \<longrightarrow> hd raw \<noteq> quote \<and> last raw \<noteq> quote) \<longrightarrow>
               geminiContent raw = raw)"
proof -
  let ?t = "Trim (TrimSpace raw) quote"
  have g: "geminiContent raw = ?t"
    using assms by (simp add: geminiContent_def truncateContent_id)
  obtain ws1 ws2 where ws: "whitespace ws1" "whitespace ws2" "raw = ws1 @ TrimSpace raw @ ws2"
    using TrimSpace_decomp by blast
  obtain q1 q2 where q: "set q1 \<subseteq> {quote}" "set q2 \<subseteq> {quote}" "TrimSpace raw = q1 @ ?t @ q2"
    using Trim_decomp by blast
  have mid: "q1 @ geminiContent raw @ q2 = TrimSpace raw"
    unfolding g using q(3) by simp
  have raw: "raw = ws1 @ q1 @ geminiContent raw @ q2 @ ws2"
  proof -
    have "raw = ws1 @ (q1 @ geminiContent raw @ q2) @ ws2"
      unfolding mid by (rule ws(3))
    then show ?thesis by (simp only: append_assoc)
  qed
  have ends: "geminiContent raw \<noteq> [] \<longrightarrow>
      hd (geminiContent raw) \<noteq> quote \<and> last (geminiContent raw) \<noteq> quote"
    unfolding g using Trim_hd Trim_last by blast
  have same: "leadingSpace raw = 0 \<and> trailingSpace raw = 0
      \<and> (raw \<noteq> [] \<longrightarrow> hd raw \<noteq> quote \<and> last raw \<noteq> quote) \<longrightarrow> geminiContent raw = raw"
    unfolding g by (simp add: TrimSpace_id Trim_id)
  have "leadingSpace (q1 @ geminiContent raw @ q2) = 0"
    "trailingSpace (q1 @ geminiContent raw @ q2) = 0"
    unfolding mid by (rule leadingSpace_TrimSpace, rule trailingSpace_TrimSpace)
  with ws(1,2) q(1,2) raw ends same show ?thesis by blast
qed

theorem trimming_strips_every_quote_witness:
  "length (Trim (TrimSpace quotedTweet) quote) \<le> 280
   \<and> geminiContent quotedTweet = derbyTweet
   \<and> (\<exists>ws1 q1 q2 ws2.
         whitespace ws1 \<and> whitespace ws2 \<and> set q1 \<subseteq> {quote} \<and> set q2 \<subseteq> {quote}
         \<and> quotedTweet = ws1 @ q1 @ derbyTweet @ q2 @ ws2)
   \<and> length (Trim (TrimSpace derbyTweet) quote) \<le> 280
   \<and> leadingSpace derbyTweet = 0 \<and> trailingSpace derbyTweet = 0
   \<and> hd derbyTweet \<noteq> quote \<and> last derbyTweet \<noteq> quote
   \<and> geminiContent derbyTweet = derbyTweet"
proof -
  have a: "length (Trim (TrimSpace quotedTweet) quote) \<le> 280" by code_simp
  have b: "geminiContent quotedTweet = derbyTweet" by code_simp
  have c: "length (Trim (TrimSpace derbyTweet) quote) \<le> 280" by code_simp
  have d: "leadingSpace derbyTweet = 0 \<and> trailingSpace derbyTweet = 0
     \<and> hd derbyTweet \<noteq> quote \<and> last derbyTweet \<noteq> quote" by code_simp
  have "geminiContent derbyTweet = derbyTweet"
    using trimming_strips_every_quote [OF c] d by blast
  moreover have "\<exists>ws1 q1 q2 ws2.
         whitespace ws1 \<and> whitespace ws2 \<and> set q1 \<subseteq> {quote} \<and> set q2 \<subseteq> {quote}
         \<and> quotedTweet = ws1 @ q1 @ derbyTweet @ q2 @ ws2"
    using trimming_strips_every_quote [OF a] unfolding b by blast
  ultimately show ?thesis using a b c d by simp
qed

text \<open>
  Against C5 as stated: two layers of quotes are both removed, and so is a quote that has
  no partner, where a single layer of enclosing quotes would leave one layer or the lone
  quote in place.
\<close>

theorem more_than_one_quote_layer_stripped:
  "geminiContent doubleQuoted = ''Top of the league''
   \<and> truncateContent (stripOneQuoteLayer (TrimSpace doubleQuoted))
       = [quote] @ ''Top of the league'' @ [quote]
   \<and> geminiContent ([quote] @ ''Top of the league'') = ''Top of the league''
   \<and> truncateContent (stripOneQuoteLayer (TrimSpace ([quote] @ ''Top of the league'')))
       = [quote] @ ''Top of the league''"
  by code_simp

text \<open>
  C6, as the code has it. An answer whose trimmed form is empty is never an error. On the
  first Gemini attempt it fails the 100-byte test, so the retry is made; when the retry's
  trimmed form is empty too, the run returns the empty string with a nil error. The same
  holds for a Perplexity choice that is all white space.
\<close>

theorem empty_output_is_returned:
  assumes "fetchLatestLeagueMatch w league = (ev0, Inr m)" and "10 \<le> length (UtcDate m)"
    and "primaryText (gemini w 0 (firstPrompt leagueName m)) = Some part"
    and "Trim (TrimSpace part) quote = []"
  shows
    "(\<forall>part2. primaryText (gemini w 1 (retryPrompt leagueName m)) = Some part2
         \<and> Trim (TrimSpace part2) quote = [] \<longrightarrow>
       generateLeagueNewsFromAPI w league leagueName =
         (ev0 @ [GeminiGenerate (firstPrompt leagueName m),
                 GeminiGenerate (retryPrompt leagueName m)],
          Returned (Inr [])))
     \<and> (\<forall>resp choice rest. StatusCode resp = 200
           \<and> decodeChoices w (Body resp) = Inr (choice # rest) \<and> TrimSpace choice = [] \<longrightarrow>
         perplexityResult w (Inr resp) = Inr [])"
proof -
  have short: "length (geminiContent part) < 100"
    using assms(4) by (simp add: geminiContent_def truncateContent_def)
  have "\<And>part2. primaryText (gemini w 1 (retryPrompt leagueName m)) = Some part2 \<Longrightarrow>
      Trim (TrimSpace part2) quote = [] \<Longrightarrow>
      generateLeagueNewsFromAPI w league leagueName =
         (ev0 @ [GeminiGenerate (firstPrompt leagueName m),
                 GeminiGenerate (retryPrompt leagueName m)],
          Returned (Inr []))"
    using gen_retry_text [OF assms(1,2,3) short]
    by (simp add: geminiContent_def truncateContent_def)
  moreover have "\<And>resp choice rest. StatusCode resp = 200 \<Longrightarrow>
      decodeChoices w (Body resp) = Inr (choice # rest) \<Longrightarrow> TrimSpace choice = [] \<Longrightarrow>
      perplexityResult w (Inr resp) = Inr []"
    by (simp add: perplexityResult_def perplexityContent_def truncateContent_def)
  ultimately show ?thesis by blast
qed

theorem empty_output_is_returned_witness:
  "fetchLatestLeagueMatch blankWorld PremierLeague
     = ([FootballDataGet (leagueURL PremierLeague)], Inr sampleMatch)
   \<and> 10 \<le> length (UtcDate sampleMatch)
   \<and> primaryText (gemini blankWorld 0 (firstPrompt ''PremierLeague'' sampleMatch)) = Some ''   ''
   \<and> primaryText (gemini blankWorld 1 (retryPrompt ''PremierLeague'' sampleMatch)) = Some ''   ''
   \<and> Trim (TrimSpace ''   '') quote = []
   \<and> generateLeagueNewsFromAPI blankWorld PremierLeague ''PremierLeague'' =
        ([FootballDataGet (leagueURL PremierLeague)]
           @ [GeminiGenerate (firstPrompt ''PremierLeague'' sampleMatch),
              GeminiGenerate (retryPrompt ''PremierLeague'' sampleMatch)],
         Returned (Inr []))
   \<and> perplexityResult blankWorld (okResponse 200 ''   '') = Inr []"
proof -
  have f: "perplexityResult blankWorld (okResponse 200 ''   '') = Inr []" by code_simp
  have a: "fetchLatestLeagueMatch blankWorld PremierLeague
             = ([FootballDataGet (leagueURL PremierLeague)], Inr sampleMatch)"
    by (simp add: blankWorld_def sample_fetch)
  have b: "10 \<le> length (UtcDate sampleMatch)" by (simp add: sampleMatch_def)
  have c: "primaryText (gemini blankWorld 0 (firstPrompt ''PremierLeague'' sampleMatch))
             = Some ''   ''"
    by (simp add: blankWorld_def sample_gemini primaryText_def textResponse_def firstPart_def)
  have d: "primaryText (gemini blankWorld 1 (retryPrompt ''PremierLeague'' sampleMatch))
             = Some ''   ''"
    by (simp add: blankWorld_def sample_gemini primaryText_def textResponse_def firstPart_def)
  have e: "Trim (TrimSpace ''   '') quote = []" by code_simp
  show ?thesis
    using empty_output_is_returned [OF a b c e] a b c d e f by blast
qed

text \<open>
  Against C6 as stated: when both Gemini attempts answer three spaces, the run returns the
  empty string with a nil error.
\<close>

theorem blank_answer_returned_as_success:
  "Trim (TrimSpace ''   '') quote = []
   \<and> snd (generateLeagueNewsFromAPI blankWorld PremierLeague ''PremierLeague'')
       = Returned (Inr [])"
  by code_simp

section \<open>Claims C7 to C10: fallback output, fact fetch, validating twice, date slicing\<close>



text \<open>
  C8. When the fact fetch of the topic a run selects returns an error, the run returns an
  error and its only call to the outside is that fetch: no provider is called and nothing
  is posted.
\<close>

theorem fact_fetch_failure_aborts:
  assumes "factFetchFails w"
  shows "(\<exists>err. snd (Run w) = Returned (Some err))
         \<and> length (fst (Run w)) = 1 \<and> list_all isFactFetch (fst (Run w))"
proof -
  obtain ev err where "isFactFetch ev" "generateContent w = ([ev], Returned (Inl err))"
    using generateContent_fetch_fails [OF assms] by blast
  then show ?thesis by (simp add: Run_def)
qed

theorem fact_fetch_failure_aborts_witness:
  "factFetchFails noMatchWorld
   \<and> snd (Run noMatchWorld)
       = Returned (Some ''failed to generate news: failed to fetch latest match: no matches found'')
   \<and> fst (Run noMatchWorld) = [FootballDataGet (leagueURL PremierLeague)]
   \<and> length (fst (Run noMatchWorld)) = 1 \<and> list_all isFactFetch (fst (Run noMatchWorld))
   \<and> factFetchFails noNewsWorld
   \<and> snd (Run noNewsWorld)
       = Returned (Some ''failed to generate news: failed to fetch crypto news: no crypto news found'')
   \<and> length (fst (Run noNewsWorld)) = 1 \<and> list_all isFactFetch (fst (Run noNewsWorld))"
proof -
  have a': "factFetchFails noNewsWorld" by code_simp
  have b': "snd (Run noNewsWorld)
       = Returned (Some ''failed to generate news: failed to fetch crypto news: no crypto news found'')"
    by code_simp
  have a: "factFetchFails noMatchWorld" by code_simp
  have b: "snd (Run noMatchWorld)
       = Returned (Some ''failed to generate news: failed to fetch latest match: no matches found'')"
    by code_simp
  have c: "fst (Run noMatchWorld) = [FootballDataGet (leagueURL PremierLeague)]"
    by code_simp
  show ?thesis
    using fact_fetch_failure_aborts [OF a] fact_fetch_failure_aborts [OF a'] a b c a' b'
    by simp
qed

text \<open>
  C9, as the code has it. Validating the result of validating a Gemini answer returns it
  unchanged exactly when that result neither starts nor ends with a white-space rune (the
  quotes are trimmed after the white space, so they can leave white space at the ends);
  the validation of a Perplexity answer is idempotent; and a string that neither starts
  nor ends with a white-space rune or a double quote and has at most 280 bytes is returned
  as it is by both.
\<close>

theorem revalidation_law:
  "(geminiContent (geminiContent raw) = geminiContent raw \<longleftrightarrow>
      leadingSpace (geminiContent raw) = 0 \<and> trailingSpace (geminiContent raw) = 0)
   \<and> perplexityContent (perplexityContent raw) = perplexityContent raw
   \<and> (leadingSpace s = 0 \<and> trailingSpace s = 0
        \<and> (s \<noteq> [] \<longrightarrow> hd s \<noteq> quote \<and> last s \<noteq> quote) \<and> length s \<le> 280 \<longrightarrow>
      geminiContent s = s \<and> perplexityContent s = s)"
  using revalidation [of raw] revalidation_only_if [of raw] perplexityContent_idem [of raw]
    geminiContent_id [of s]
  by (auto simp: perplexityContent_def TrimSpace_id truncateContent_id)

theorem revalidation_law_witness:
  "leadingSpace (geminiContent quotedTweet) = 0 \<and> trailingSpace (geminiContent quotedTweet) = 0
   \<and> geminiContent (geminiContent quotedTweet) = geminiContent quotedTweet
   \<and> leadingSpace derbyTweet = 0 \<and> trailingSpace derbyTweet = 0
   \<and> hd derbyTweet \<noteq> quote \<and> last derbyTweet \<noteq> quote \<and> length derbyTweet \<le> 280
   \<and> geminiContent derbyTweet = derbyTweet \<and> perplexityContent derbyTweet = derbyTweet"
proof -
  have g: "geminiContent quotedTweet = derbyTweet" by code_simp
  have a: "leadingSpace derbyTweet = 0" by code_simp
  have b: "trailingSpace derbyTweet = 0" by code_simp
  have c: "hd derbyTweet \<noteq> quote \<and> last derbyTweet \<noteq> quote" by code_simp
  have d: "length derbyTweet \<le> 280" by code_simp
  show ?thesis
    using revalidation_law [of quotedTweet derbyTweet] a b c d unfolding g by simp
qed

text \<open>
  Against C9 as stated: a quote, a space, a letter, a space and a quote validate to the
  letter between two spaces, and that validation output validates to the letter alone.
\<close>

theorem validation_not_idempotent:
  "geminiContent spacedQuoted = '' a ''
   \<and> geminiContent (geminiContent spacedQuoted) = ''a''
   \<and> geminiContent (geminiContent spacedQuoted) \<noteq> geminiContent spacedQuoted"
  by code_simp

text \<open>
  C10. \<^verbatim>\<open>generateLeagueNewsFromAPI\<close> and \<^verbatim>\<open>generatePremierLeagueNewsFromAPI\<close> slice
  \<^verbatim>\<open>match.UtcDate[:10]\<close> without a length test: when the fetched match has a date
  shorter than 10 bytes, both panic right after the fetch instead of returning an error.
\<close>

theorem short_date_panics:
  "(snd (fetchLatestLeagueMatch w league) = Inr m \<and> length (UtcDate m) < 10 \<longrightarrow>
      generateLeagueNewsFromAPI w league leagueName
        = ([FootballDataGet (leagueURL league)], Panic))
   \<and> (snd (fetchLatestPremierLeagueMatch w) = Inr m \<and> length (UtcDate m) < 10 \<longrightarrow>
      generatePremierLeagueNewsFromAPI w = ([FootballDataGet premierLeagueURL], Panic))"
  by (auto simp: generateLeagueNewsFromAPI_def generatePremierLeagueNewsFromAPI_def
      fetchLatestLeagueMatch_def fetchLatestPremierLeagueMatch_def)

theorem short_date_panics_witness:
  "snd (fetchLatestLeagueMatch shortDateWorld PremierLeague)
     = Inr (sampleMatch\<lparr>UtcDate := ''2024''\<rparr>)
   \<and> snd (fetchLatestPremierLeagueMatch shortDateWorld) = Inr (sampleMatch\<lparr>UtcDate := ''2024''\<rparr>)
   \<and> length (UtcDate (sampleMatch\<lparr>UtcDate := ''2024''\<rparr>)) < 10
   \<and> generateLeagueNewsFromAPI shortDateWorld PremierLeague ''PremierLeague''
       = ([FootballDataGet (leagueURL PremierLeague)], Panic)
   \<and> generatePremierLeagueNewsFromAPI shortDateWorld
       = ([FootballDataGet premierLeagueURL], Panic)"
proof -
  have a: "snd (fetchLatestLeagueMatch shortDateWorld PremierLeague)
     = Inr (sampleMatch\<lparr>UtcDate := ''2024''\<rparr>)"
    by (simp add: shortDateWorld_def sample_fetch)
  have b: "snd (fetchLatestPremierLeagueMatch shortDateWorld)
     = Inr (sampleMatch\<lparr>UtcDate := ''2024''\<rparr>)"
    by (simp add: shortDateWorld_def fetchLatestPremierLeagueMatch_def matchesResult_def
        sampleWorld_def okResponse_def)
  have c: "length (UtcDate (sampleMatch\<lparr>UtcDate := ''2024''\<rparr>)) < 10" by simp
  show ?thesis
    using short_date_panics [of shortDateWorld PremierLeague "sampleMatch\<lparr>UtcDate := ''2024''\<rparr>"
        "''PremierLeague''"] a b c
    by simp
qed

end
